theory Spec2Isabelle
  imports Complex_Main "HOL-Library.Word" "HOL-Library.Product_Lexorder"
begin

unbundle bit_operations_syntax

section \<open>Common ground: bytes, Python errors, slices and struct\<close>

type_synonym byte = "8 word"

text \<open>
  The exceptions the modelled functions let escape. The messages of the source are
  dropped; the class of the exception is kept. \<open>StructError\<close> is \<open>struct.error\<close>,
  \<open>Exception\<close> is a bare \<open>raise Exception(...)\<close>.
\<close>

datatype pyerror =
    AssertionError | StructError | IndexError | TypeError | KeyError | ValueError
  | ZeroDivisionError | OSError | NotImplementedError | UnicodeDecodeError
  | UnboundLocalError | Exception

text \<open>
  Python's \<open>b[i:j]\<close> on a sequence: a negative bound counts from the end, both bounds
  are clipped to the sequence, and the slice never raises.
\<close>

definition clip :: "nat \<Rightarrow> int \<Rightarrow> nat" where
  "clip n i = (if i < 0 then nat (int n + i) else min n (nat i))"

definition py_slice :: "'a list \<Rightarrow> int \<Rightarrow> int \<Rightarrow> 'a list" where
  "py_slice xs i j = take (clip (length xs) j - clip (length xs) i) (drop (clip (length xs) i) xs)"

text \<open>Python's \<open>xs[i]\<close>: a negative index counts from the end, out of range raises.\<close>

definition py_index :: "'a list \<Rightarrow> int \<Rightarrow> pyerror + 'a" where
  "py_index xs i =
     (if 0 \<le> i \<and> i < int (length xs) then Inr (xs ! nat i)
      else if i < 0 \<and> - int (length xs) \<le> i then Inr (xs ! nat (int (length xs) + i))
      else Inl IndexError)"

text \<open>
  Python's integers are unbounded: they are \<open>int\<close> throughout. Little-endian
  unsigned integers: \<open>le_bytes k v\<close> are the \<open>k\<close> low bytes of \<open>v\<close>, \<open>from_le\<close> is
  \<open>int.from_bytes(b, byteorder='little')\<close>.
\<close>

fun le_bytes :: "nat \<Rightarrow> int \<Rightarrow> byte list" where
  "le_bytes 0 v = []"
| "le_bytes (Suc k) v = word_of_int (v mod 256) # le_bytes k (v div 256)"

fun from_le :: "byte list \<Rightarrow> int" where
  "from_le [] = 0"
| "from_le (b # bs) = uint b + 256 * from_le bs"

section \<open>The 3TZ index (archive3tz.py, index3tz.py)\<close>

subsection \<open>Index and lookup\<close>

text \<open>
  \<open>Index.__init__\<close> casts the blob to a view of unsigned 64-bit items
  (\<open>memoryview(indexBytes).cast("Q")\<close>), which raises \<open>TypeError\<close> unless the length is
  a multiple of 8. The cast reads in native byte order; the model is of a little-endian
  host, where native order and the \<open><\<close> of \<open>struct.pack('<QQQ', ...)\<close> agree.
\<close>

fun cast_Q :: "byte list \<Rightarrow> int list" where
  "cast_Q (b0 # b1 # b2 # b3 # b4 # b5 # b6 # b7 # rest) =
     from_le [b0, b1, b2, b3, b4, b5, b6, b7] # cast_Q rest"
| "cast_Q _ = []"

definition readIndex :: "byte list \<Rightarrow> pyerror + int list" where
  "readIndex indexBytes =
     (if length indexBytes mod 8 \<noteq> 0 then Inl TypeError else Inr (cast_Q indexBytes))"

text \<open>\<open>Index.__len__\<close>: \<open>int(len(self.index)/3)\<close>.\<close>

definition Index_len :: "int list \<Rightarrow> int" where
  "Index_len index = int (length index) div 3"

text \<open>\<open>Index.__getitem__\<close>: three reads of the view, each of which may raise.\<close>

definition Index_getitem :: "int list \<Rightarrow> int \<Rightarrow> pyerror + (int \<times> int \<times> int)" where
  "Index_getitem index i =
     (case py_index index (3 * i) of Inl e \<Rightarrow> Inl e | Inr lo \<Rightarrow>
       (case py_index index (3 * i + 1) of Inl e \<Rightarrow> Inl e | Inr hi \<Rightarrow>
         (case py_index index (3 * i + 2) of Inl e \<Rightarrow> Inl e | Inr off \<Rightarrow>
            Inr (lo, hi, off))))"

definition md5LessThan :: "int \<Rightarrow> int \<Rightarrow> int \<Rightarrow> int \<Rightarrow> bool" where
  "md5LessThan aLo aHi bLo bHi = (if aLo = bLo then aHi < bHi else aLo < bLo)"

text \<open>
  The binary search of \<open>findLocalFileHeaderOffsetInIndex\<close>, one call per turn of the
  \<open>while low <= high\<close> loop. \<open>math.floor(low + (high - low) / 2)\<close> is computed in
  floating point by the source; for the sizes an index can have (far below \<open>2^53\<close>) it
  is \<open>low + (high - low) div 2\<close>.
\<close>

function bisect :: "int list \<Rightarrow> int \<Rightarrow> int \<Rightarrow> int \<Rightarrow> int \<Rightarrow> pyerror + int option" where
  "bisect index a b low high =
     (if low \<le> high then
        (case Index_getitem index (low + (high - low) div 2) of
           Inl e \<Rightarrow> Inl e
         | Inr (e0, e1, e2) \<Rightarrow>
             if e0 = a \<and> e1 = b then Inr (Some e2)
             else if md5LessThan e0 e1 a b
               then bisect index a b (low + (high - low) div 2 + 1) high
               else bisect index a b low (low + (high - low) div 2 - 1))
      else Inr None)"
  by pat_completeness auto
termination
  by (relation "measure (\<lambda>(index, a, b, low, high). nat (high - low + 1))") auto

declare bisect.simps [simp del]

text \<open>
  The MD5 digest of the UTF-8 file path, unpacked as two unsigned 64-bit integers
  (\<open>struct.unpack("QQ", hashlib.md5(path.encode('utf-8')).digest())\<close>), is a library
  function: it is the parameter \<open>md5\<close> of everything below.
\<close>

type_synonym md5_halves = "string \<Rightarrow> 64 word \<times> 64 word"

definition findLocalFileHeaderOffsetInIndex ::
    "md5_halves \<Rightarrow> int list \<Rightarrow> string \<Rightarrow> pyerror + int option" where
  "findLocalFileHeaderOffsetInIndex md5 index filepath =
     (case md5 filepath of (a, b) \<Rightarrow>
        bisect index (uint a) (uint b) 0 (Index_len index))"

subsection \<open>Building the index of a plain ZIP\<close>

text \<open>
  What \<open>buildIndex\<close> reads of a \<open>zipfile.ZipInfo\<close>. \<open>zip.infolist()\<close> is the list of
  the central directory's entries, in the directory's order; a name may occur more than
  once in it.
\<close>

record ZipInfo =
  filename :: string
  flag_bits :: int
  compress_type :: int
  compress_size :: int
  file_size :: int
  header_offset :: int

text \<open>\<open>ZipInfo.is_dir\<close>: the name ends with a slash.\<close>

definition is_dir :: "ZipInfo \<Rightarrow> bool" where
  "is_dir item = (filename item \<noteq> [] \<and> last (filename item) = CHR ''/'')"

definition disallowedFlagBits :: int where
  "disallowedFlagBits = push_bit 0 1 OR push_bit 3 1 OR push_bit 5 1 OR push_bit 13 1"

text \<open>
  Every \<open>raise\<close> of \<open>checkIfSupportedZipItem\<close> is an \<open>AssertionError\<close>; the five of the
  flag test differ in their message only.
\<close>

definition checkIfSupportedZipItem :: "ZipInfo \<Rightarrow> pyerror + unit" where
  "checkIfSupportedZipItem item =
     (if compress_type item \<noteq> 8 \<and> compress_type item \<noteq> 93 \<and> compress_type item \<noteq> 0
        then Inl AssertionError
      else if flag_bits item AND disallowedFlagBits \<noteq> 0 then Inl AssertionError
      else if compress_size item = 0 \<and> file_size item \<noteq> 0 then Inl AssertionError
      else Inr ())"

text \<open>\<open>struct.pack('<QQQ', lo, hi, offset)\<close>: each value has to be in \<open>[0, 2^64)\<close>.\<close>

definition pack_QQQ :: "int \<times> int \<times> int \<Rightarrow> pyerror + byte list" where
  "pack_QQQ item =
     (case item of (lo, hi, off) \<Rightarrow>
        if 0 \<le> lo \<and> lo < 2 ^ 64 \<and> 0 \<le> hi \<and> hi < 2 ^ 64 \<and> 0 \<le> off \<and> off < 2 ^ 64
        then Inr (le_bytes 8 lo @ le_bytes 8 hi @ le_bytes 8 off)
        else Inl StructError)"

text \<open>
  The first loop of \<open>buildIndex\<close>: every item is checked, then the items that are
  neither a directory nor the index file contribute \<open>[lo, hi, offset]\<close>. The result
  lists the contributions in the order of the appends.
\<close>

fun gatherIndex :: "md5_halves \<Rightarrow> ZipInfo list \<Rightarrow> pyerror + (int \<times> int \<times> int) list" where
  "gatherIndex md5 [] = Inr []"
| "gatherIndex md5 (item # rest) =
     (case checkIfSupportedZipItem item of
        Inl e \<Rightarrow> Inl e
      | Inr u \<Rightarrow>
          (case gatherIndex md5 rest of
             Inl e \<Rightarrow> Inl e
           | Inr unsortedIndex \<Rightarrow>
               if \<not> is_dir item \<and> filename item \<noteq> ''@3dtilesIndex1@''
               then (case md5 (filename item) of (lo, hi) \<Rightarrow>
                       Inr ((uint lo, uint hi, header_offset item) # unsortedIndex))
               else Inr unsortedIndex))"

text \<open>The second loop: \<open>indexBytes += struct.pack(...)\<close> for each item.\<close>

fun packIndex :: "(int \<times> int \<times> int) list \<Rightarrow> pyerror + byte list" where
  "packIndex [] = Inr []"
| "packIndex (item # rest) =
     (case pack_QQQ item of
        Inl e \<Rightarrow> Inl e
      | Inr bs \<Rightarrow> (case packIndex rest of Inl e \<Rightarrow> Inl e | Inr tl_bytes \<Rightarrow> Inr (bs @ tl_bytes)))"

text \<open>
  \<open>sorted(unsortedIndex, key=operator.itemgetter(0, 1))\<close> is a stable sort on the pair
  \<open>(lo, hi)\<close>, compared lexicographically; so is \<open>sort_key\<close>.
\<close>

definition buildIndex :: "md5_halves \<Rightarrow> ZipInfo list \<Rightarrow> pyerror + byte list" where
  "buildIndex md5 infolist =
     (case gatherIndex md5 infolist of
        Inl e \<Rightarrow> Inl e
      | Inr unsortedIndex \<Rightarrow>
          packIndex (sort_key (\<lambda>item. (fst item, fst (snd item))) unsortedIndex))"

text \<open>
  For the concrete runs below: the function that agrees with MD5 on the four paths
  they use (\<open>hashlib.md5(b'a').digest()\<close> is \<open>0cc175b9c0f1b6a8 31c399e269772661\<close>, read
  as two little-endian 64-bit integers, and so on) and is zero elsewhere.
\<close>

definition md5_sample :: md5_halves where
  "md5_sample path =
     (if path = ''a'' then (0xa8b6f1c0b975c10c, 0x61267769e299c331)
      else if path = ''b'' then (0xec2faee6fe5feb92, 0x8f573175771cd73a)
      else if path = ''c'' then (0x37b7379df0088a4a, 0x335f8b4038906495)
      else if path = ''a/'' then (0x56ef86942deda6a8, 0x0e74fbb8e032bbf6)
      else (0, 0))"

text \<open>
  Two ZIP directories for the concrete runs: one of the regular files \<open>a\<close> and \<open>b\<close>, and
  one in which the name \<open>a\<close> occurs twice, as the ZIP format allows and
  \<open>zipfile.ZipFile.infolist\<close> reports.
\<close>

definition zip_two_names :: "ZipInfo list" where
  "zip_two_names =
     [\<lparr>filename = ''a'', flag_bits = 0, compress_type = 8, compress_size = 10,
       file_size = 20, header_offset = 0\<rparr>,
      \<lparr>filename = ''b'', flag_bits = 0, compress_type = 0, compress_size = 7,
       file_size = 7, header_offset = 61\<rparr>]"

definition zip_duplicate_name :: "ZipInfo list" where
  "zip_duplicate_name =
     [\<lparr>filename = ''a'', flag_bits = 0, compress_type = 8, compress_size = 10,
       file_size = 20, header_offset = 0\<rparr>,
      \<lparr>filename = ''a'', flag_bits = 0, compress_type = 8, compress_size = 69,
       file_size = 300, header_offset = 100\<rparr>]"

subsection \<open>Notions for stating the round trip\<close>

text \<open>
  The items of the view that \<open>Index\<close> reads for a list of entries, the sort key of an
  entry, the entries that \<open>buildIndex\<close> keeps, and the entry it makes of one.
\<close>

definition flatten :: "(int \<times> int \<times> int) list \<Rightarrow> int list" where
  "flatten es = concat (map (\<lambda>(lo, hi, off). [lo, hi, off]) es)"

definition entry_key :: "int \<times> int \<times> int \<Rightarrow> int \<times> int" where
  "entry_key e = (fst e, fst (snd e))"

definition indexed :: "ZipInfo \<Rightarrow> bool" where
  "indexed item = (\<not> is_dir item \<and> filename item \<noteq> ''@3dtilesIndex1@'')"

definition entry_of :: "md5_halves \<Rightarrow> ZipInfo \<Rightarrow> int \<times> int \<times> int" where
  "entry_of md5 item =
     (uint (fst (md5 (filename item))), uint (snd (md5 (filename item))), header_offset item)"

section \<open>The ZIP parser and the codec (archive3tz.py)\<close>

text \<open>
  An open binary file is its content. \<open>file.seek(offset)\<close> followed by \<open>file.read(n)\<close>
  returns the \<open>n\<close> bytes at \<open>offset\<close>, fewer at the end of the file; a negative offset
  makes \<open>seek\<close> raise \<open>OSError\<close> (errno 22), one that does not fit a signed 64-bit
  file position makes it raise \<open>ValueError\<close>.
\<close>

definition seek :: "int \<Rightarrow> pyerror + nat" where
  "seek offset =
     (if offset < 0 then Inl OSError
      else if 2 ^ 63 \<le> offset then Inl ValueError
      else Inr (nat offset))"

text \<open>
  \<open>bytes.decode('utf-8')\<close> is a library function: the parameter \<open>utf8\<close>, which is
  \<open>None\<close> where \<open>decode\<close> raises \<open>UnicodeDecodeError\<close>.
\<close>

type_synonym utf8_decoder = "byte list \<Rightarrow> string option"

definition decode :: "utf8_decoder \<Rightarrow> byte list \<Rightarrow> pyerror + string" where
  "decode utf8 bs = (case utf8 bs of None \<Rightarrow> Inl UnicodeDecodeError | Some str \<Rightarrow> Inr str)"

definition ENDOFCENTRALDIRECTORY :: "byte list" where
  "ENDOFCENTRALDIRECTORY = le_bytes 4 0x06054b50"

definition STARTOFCENTRALDIRECTORY :: "byte list" where
  "STARTOFCENTRALDIRECTORY = le_bytes 4 0x02014b50"

definition LOCALFILEHEADERSIZE :: int where
  "LOCALFILEHEADERSIZE = 30"

definition ZIP64_EXTENDED_INFORMATION_EXTRA_SIGNATURE :: int where
  "ZIP64_EXTENDED_INFORMATION_EXTRA_SIGNATURE = 0x0001"

definition ZIP_COMPRESSION_METHOD_DEFLATE :: "byte list" where
  "ZIP_COMPRESSION_METHOD_DEFLATE = le_bytes 2 0x08"

definition ZIP_COMPRESSION_METHOD_STORE :: "byte list" where
  "ZIP_COMPRESSION_METHOD_STORE = le_bytes 2 0x00"

definition ZIP_COMPRESSION_METHOD_ZSTD :: "byte list" where
  "ZIP_COMPRESSION_METHOD_ZSTD = le_bytes 2 0x5d"

definition ZIP_COMPRESSION_METHOD_ZSTD_OLD :: "byte list" where
  "ZIP_COMPRESSION_METHOD_ZSTD_OLD = le_bytes 2 0x17"

subsection \<open>Central directory entries and local file headers\<close>

text \<open>The dictionary that \<open>parseCentralDirectoryEntry\<close> returns, key by key.\<close>

record CentralDirectoryEntry =
  cde_signature :: "byte list"
  cde_version :: "byte list"
  cde_versionNeeded :: "byte list"
  cde_generalBits :: "byte list"
  cde_compressionMethod :: "byte list"
  cde_lastModTime :: "byte list"
  cde_lastModDate :: "byte list"
  cde_crc32 :: "byte list"
  cde_compressedSize :: int
  cde_uncompressedSize :: int
  cde_filenameLength :: int
  cde_extraFieldLength :: int
  cde_fileCommentLength :: int
  cde_distNumber :: int
  cde_internalFileAttributes :: "byte list"
  cde_externalFileAttributes :: "byte list"
  cde_relativeOffsetOfLocalHeader :: int
  cde_filename :: string
  cde_extraField :: "byte list"
  cde_fileComment :: "byte list"

definition parseCentralDirectoryEntry ::
    "utf8_decoder \<Rightarrow> byte list \<Rightarrow> pyerror + CentralDirectoryEntry" where
  "parseCentralDirectoryEntry utf8 bytes =
     (let filenameLength = from_le (py_slice bytes 28 30);
          extraFieldLength = from_le (py_slice bytes 30 32);
          fileCommentLength = from_le (py_slice bytes 32 34)
      in case decode utf8 (py_slice bytes 46 (46 + filenameLength)) of
           Inl e \<Rightarrow> Inl e
         | Inr name \<Rightarrow> Inr
            \<lparr>cde_signature = py_slice bytes 0 4,
             cde_version = py_slice bytes 4 6,
             cde_versionNeeded = py_slice bytes 6 8,
             cde_generalBits = py_slice bytes 8 10,
             cde_compressionMethod = py_slice bytes 10 12,
             cde_lastModTime = py_slice bytes 12 14,
             cde_lastModDate = py_slice bytes 14 16,
             cde_crc32 = py_slice bytes 16 20,
             cde_compressedSize = from_le (py_slice bytes 20 24),
             cde_uncompressedSize = from_le (py_slice bytes 24 28),
             cde_filenameLength = filenameLength,
             cde_extraFieldLength = extraFieldLength,
             cde_fileCommentLength = fileCommentLength,
             cde_distNumber = from_le (py_slice bytes 34 36),
             cde_internalFileAttributes = py_slice bytes 36 38,
             cde_externalFileAttributes = py_slice bytes 38 42,
             cde_relativeOffsetOfLocalHeader = from_le (py_slice bytes 42 46),
             cde_filename = name,
             cde_extraField =
               py_slice bytes (46 + filenameLength) (46 + filenameLength + extraFieldLength),
             cde_fileComment =
               py_slice bytes (46 + filenameLength + extraFieldLength)
                 (46 + filenameLength + extraFieldLength + fileCommentLength)\<rparr>)"

record LocalFileHeader =
  lfh_signature :: "byte list"
  lfh_versionNeeded :: "byte list"
  lfh_generalBits :: "byte list"
  lfh_compressionMethod :: "byte list"
  lfh_lastModTime :: "byte list"
  lfh_lastModDate :: "byte list"
  lfh_crc32 :: "byte list"
  lfh_compressedSize :: int
  lfh_uncompressedSize :: int
  lfh_filenameLength :: int
  lfh_extraFieldLength :: int
  lfh_filename :: string
  lfh_extraField :: "byte list"

definition getLocalFileHeaderAtOffset ::
    "utf8_decoder \<Rightarrow> byte list \<Rightarrow> int \<Rightarrow> pyerror + LocalFileHeader" where
  "getLocalFileHeaderAtOffset utf8 file offset =
     (case seek offset of
        Inl e \<Rightarrow> Inl e
      | Inr pos \<Rightarrow>
         (let bytes = take (nat (LOCALFILEHEADERSIZE + 100)) (drop pos file);
              filenameLength = from_le (py_slice bytes 26 28);
              extraFieldLength = from_le (py_slice bytes 28 30)
          in case decode utf8
                    (py_slice bytes LOCALFILEHEADERSIZE (LOCALFILEHEADERSIZE + filenameLength)) of
               Inl e \<Rightarrow> Inl e
             | Inr name \<Rightarrow> Inr
                \<lparr>lfh_signature = py_slice bytes 0 4,
                 lfh_versionNeeded = py_slice bytes 4 6,
                 lfh_generalBits = py_slice bytes 6 8,
                 lfh_compressionMethod = py_slice bytes 8 10,
                 lfh_lastModTime = py_slice bytes 10 12,
                 lfh_lastModDate = py_slice bytes 12 14,
                 lfh_crc32 = py_slice bytes 14 18,
                 lfh_compressedSize = from_le (py_slice bytes 18 22),
                 lfh_uncompressedSize = from_le (py_slice bytes 22 26),
                 lfh_filenameLength = filenameLength,
                 lfh_extraFieldLength = extraFieldLength,
                 lfh_filename = name,
                 lfh_extraField =
                   py_slice bytes (LOCALFILEHEADERSIZE + filenameLength)
                     (LOCALFILEHEADERSIZE + filenameLength + extraFieldLength)\<rparr>))"

text \<open>
  \<open>struct.unpack\<close> of unsigned little-endian fields raises \<open>struct.error\<close> unless the
  buffer has exactly the size of the format.
\<close>

definition unpack_HH :: "byte list \<Rightarrow> pyerror + (int \<times> int)" where
  "unpack_HH bs =
     (if length bs \<noteq> 4 then Inl StructError
      else Inr (from_le (take 2 bs), from_le (drop 2 bs)))"

definition unpack_Q :: "byte list \<Rightarrow> pyerror + int" where
  "unpack_Q bs = (if length bs \<noteq> 8 then Inl StructError else Inr (from_le bs))"

lemma from_le_nonneg: "0 \<le> from_le bs"
  by (induction bs) auto

lemma walk_step_advances: "- 4 < from_le bs"
  using from_le_nonneg [of bs] by simp

text \<open>
  The \<open>while currentPos < cde.get('extraFieldLength')\<close> loop of
  \<open>getLocalFileHeaderFromCentralDirectoryEntry\<close>, one call per turn; falling out of the
  loop is the \<open>return None\<close> of the source.
\<close>

function walkExtraField ::
    "utf8_decoder \<Rightarrow> byte list \<Rightarrow> CentralDirectoryEntry \<Rightarrow> int
      \<Rightarrow> pyerror + LocalFileHeader option" where
  "walkExtraField utf8 file cde currentPos =
     (if currentPos < cde_extraFieldLength cde then
        (case unpack_HH (py_slice (cde_extraField cde) currentPos (currentPos + 4)) of
           Inl e \<Rightarrow> Inl e
         | Inr (extra_tag, extra_size) \<Rightarrow>
             if extra_tag = ZIP64_EXTENDED_INFORMATION_EXTRA_SIGNATURE \<and> extra_size = 8 then
               (case unpack_Q (py_slice (cde_extraField cde) (currentPos + 4) (currentPos + 12)) of
                  Inl e \<Rightarrow> Inl e
                | Inr offset \<Rightarrow>
                    (case getLocalFileHeaderAtOffset utf8 file offset of
                       Inl e \<Rightarrow> Inl e
                     | Inr lfh \<Rightarrow> Inr (Some lfh)))
             else walkExtraField utf8 file cde (currentPos + 4 + extra_size))
      else Inr None)"
  by pat_completeness auto
termination
  by (relation "measure (\<lambda>(utf8, file, cde, currentPos).
                           nat (cde_extraFieldLength cde - currentPos))")
    (auto simp: unpack_HH_def walk_step_advances split: if_splits)

declare walkExtraField.simps [simp del]

definition getLocalFileHeaderFromCentralDirectoryEntry ::
    "utf8_decoder \<Rightarrow> byte list \<Rightarrow> CentralDirectoryEntry \<Rightarrow> pyerror + LocalFileHeader option" where
  "getLocalFileHeaderFromCentralDirectoryEntry utf8 file cde =
     (if cde_relativeOffsetOfLocalHeader cde = 0xFFFFFFFF then walkExtraField utf8 file cde 0
      else (case getLocalFileHeaderAtOffset utf8 file (cde_relativeOffsetOfLocalHeader cde) of
              Inl e \<Rightarrow> Inl e
            | Inr lfh \<Rightarrow> Inr (Some lfh)))"

text \<open>
  For stating what the walk does: the bytes of an extra field that is a sequence of
  complete tuples \<open>(tag, size, payload)\<close>, and the tuples that are well formed and are
  not the ZIP64 record the walk looks for (tag \<open>0x0001\<close> with size 8).
\<close>

fun extra_tuples :: "(int \<times> byte list) list \<Rightarrow> byte list" where
  "extra_tuples [] = []"
| "extra_tuples ((tag, payload) # ts) =
     le_bytes 2 tag @ le_bytes 2 (int (length payload)) @ payload @ extra_tuples ts"

definition other_tuple :: "int \<times> byte list \<Rightarrow> bool" where
  "other_tuple t =
     (0 \<le> fst t \<and> fst t < 2 ^ 16 \<and> length (snd t) < 2 ^ 16
      \<and> \<not> (fst t = 0x0001 \<and> length (snd t) = 8))"

text \<open>
  A central directory entry for the file \<open>a\<close> whose offset field is \<open>0xFFFFFFFF\<close> and
  whose extra field holds one tuple, an extended timestamp (tag \<open>0x5455\<close>, size 5), and
  no ZIP64 record.
\<close>

definition cde_zip64_without_record :: CentralDirectoryEntry where
  "cde_zip64_without_record =
     \<lparr>cde_signature = [0x50, 0x4b, 0x01, 0x02], cde_version = [45, 3],
      cde_versionNeeded = [45, 0], cde_generalBits = [0, 0],
      cde_compressionMethod = [0, 0], cde_lastModTime = [0, 0],
      cde_lastModDate = [33, 84], cde_crc32 = [131, 22, 220, 140],
      cde_compressedSize = 1, cde_uncompressedSize = 1,
      cde_filenameLength = 1, cde_extraFieldLength = 9,
      cde_fileCommentLength = 0, cde_distNumber = 0,
      cde_internalFileAttributes = [0, 0],
      cde_externalFileAttributes = [0, 0, 128, 1],
      cde_relativeOffsetOfLocalHeader = 0xFFFFFFFF, cde_filename = ''a'',
      cde_extraField = [0x55, 0x54, 5, 0, 1, 0, 0, 0, 0], cde_fileComment = []\<rparr>"

subsection \<open>The last entry of the central directory\<close>

text \<open>
  \<open>bytes.rfind(sub)\<close>: the highest index at which \<open>sub\<close> occurs, \<open>-1\<close> if it does not
  occur. \<open>rfind_from\<close> walks the buffer from position \<open>pos\<close> on and remembers the last
  position where \<open>sub\<close> began.
\<close>

fun rfind_from :: "'a list \<Rightarrow> 'a list \<Rightarrow> int \<Rightarrow> int \<Rightarrow> int" where
  "rfind_from sub [] pos found = (if sub = [] then pos else found)"
| "rfind_from sub (b # rest) pos found =
     rfind_from sub rest (pos + 1) (if take (length sub) (b # rest) = sub then pos else found)"

definition rfind :: "'a list \<Rightarrow> 'a list \<Rightarrow> int" where
  "rfind buffer sub = rfind_from sub buffer 0 (- 1)"

text \<open>
  \<open>getLastEntryInCentralDirectory\<close>. The file is open, so \<open>os.path.getsize\<close> is the
  length of its content and the \<open>except FileNotFoundError\<close> has nothing to catch; the
  \<open>OSError\<close> of a negative \<open>seek\<close> is not a \<open>FileNotFoundError\<close> and escapes.
  \<open>file.read()\<close> reads to the end.
\<close>

definition getLastEntryInCentralDirectory ::
    "utf8_decoder \<Rightarrow> byte list \<Rightarrow> pyerror + CentralDirectoryEntry option" where
  "getLastEntryInCentralDirectory utf8 file =
     (case seek (int (length file) - 320) of
        Inl e \<Rightarrow> Inl e
      | Inr pos \<Rightarrow>
         (let buffer = drop pos file;
              start = rfind buffer STARTOFCENTRALDIRECTORY;
              end = rfind buffer ENDOFCENTRALDIRECTORY
          in if start < end \<and> start \<noteq> end then
               (case parseCentralDirectoryEntry utf8 (py_slice buffer start end) of
                  Inl e \<Rightarrow> Inl e
                | Inr cde \<Rightarrow> Inr (Some cde))
             else Inr None))"

text \<open>
  A complete ZIP archive of 101 bytes, as \<open>zipfile\<close> writes it: one stored file \<open>a\<close> with
  the content \<open>x\<close> (local header and data, 32 bytes), its central directory entry
  (47 bytes, from offset 32) and the end-of-central-directory record (22 bytes, from
  offset 79).
\<close>

definition zip_one_file :: "byte list" where
  "zip_one_file =
    [80, 75, 3, 4, 20, 0, 0, 0, 0, 0, 0, 0, 33, 84, 131, 22, 220, 140, 1, 0, 0, 0, 1, 0, 0, 0,
     1, 0, 0, 0, 97, 120,
     80, 75, 1, 2, 20, 3, 20, 0, 0, 0, 0, 0, 0, 0, 33, 84, 131, 22, 220, 140, 1, 0, 0, 0,
     1, 0, 0, 0, 1, 0, 0, 0, 0, 0, 0, 0, 0, 0, 0, 0, 128, 1, 0, 0, 0, 0, 97,
     80, 75, 5, 6, 0, 0, 0, 0, 1, 0, 1, 0, 47, 0, 0, 0, 32, 0, 0, 0, 0, 0]"

subsection \<open>Decompression\<close>

text \<open>
  \<open>zlib.decompress(bytes, -zlib.MAX_WBITS)\<close> and \<open>zstd.decompress(bytes,
  max_output_size=n)\<close> are library functions: the parameters \<open>inflate\<close> and \<open>zstd\<close>.
  \<open>zstd\<close> is \<open>None\<close> when the \<open>zstandard\<close> module could not be imported.
\<close>

type_synonym inflater = "byte list \<Rightarrow> pyerror + byte list"
type_synonym zstd_decompressor = "(byte list \<Rightarrow> int \<Rightarrow> pyerror + byte list) option"

definition decompressFileContents ::
    "inflater \<Rightarrow> zstd_decompressor \<Rightarrow> byte list \<Rightarrow> int \<Rightarrow> byte list \<Rightarrow> pyerror + byte list" where
  "decompressFileContents inflate zstd compMethod uncompressedFilesize bytes =
     (if compMethod = ZIP_COMPRESSION_METHOD_DEFLATE then
        (case inflate bytes of
           Inl e \<Rightarrow> Inl e
         | Inr uncompressedBytes \<Rightarrow>
             if int (length uncompressedBytes) \<noteq> uncompressedFilesize then Inl Exception
             else Inr uncompressedBytes)
      else if compMethod = ZIP_COMPRESSION_METHOD_ZSTD
              \<or> compMethod = ZIP_COMPRESSION_METHOD_ZSTD_OLD then
        (case zstd of
           None \<Rightarrow> Inl NotImplementedError
         | Some decompress \<Rightarrow>
            (case decompress bytes uncompressedFilesize of
               Inl e \<Rightarrow> Inl e
             | Inr uncompressedBytes \<Rightarrow>
                 if int (length uncompressedBytes) \<noteq> uncompressedFilesize then Inl Exception
                 else Inr uncompressedBytes))
      else if compMethod \<noteq> ZIP_COMPRESSION_METHOD_STORE then Inl Exception
      else Inr bytes)"

text \<open>
  For the concrete runs: an inflater that agrees with zlib on the raw Deflate stream
  \<open>4b 04 00\<close> of the one byte \<open>a\<close> and rejects everything else, and a decoder that reads
  bytes below 128 as ASCII.
\<close>

definition inflate_sample :: inflater where
  "inflate_sample bytes = (if bytes = [0x4b, 0x04, 0x00] then Inr [0x61] else Inl Exception)"

definition ascii_sample :: utf8_decoder where
  "ascii_sample bs =
     (if list_all (\<lambda>b. b < 128) bs then Some (map (\<lambda>b. char_of (unat b)) bs) else None)"

section \<open>GLB framing (glbjson.py)\<close>

text \<open>Signed little-endian integers, as \<open>struct.unpack('<i', ...)\<close> reads them.\<close>

definition from_le_signed :: "byte list \<Rightarrow> int" where
  "from_le_signed bs =
     (if 2 * from_le bs < 2 ^ (8 * length bs) then from_le bs
      else from_le bs - 2 ^ (8 * length bs))"

definition unpack_ii :: "byte list \<Rightarrow> pyerror + (int \<times> int)" where
  "unpack_ii bs =
     (if length bs \<noteq> 8 then Inl StructError
      else Inr (from_le_signed (take 4 bs), from_le_signed (drop 4 bs)))"

definition unpack_iiiii :: "byte list \<Rightarrow> pyerror + int list" where
  "unpack_iiiii bs =
     (if length bs \<noteq> 20 then Inl StructError
      else Inr (map (\<lambda>k. from_le_signed (take 4 (drop (4 * k) bs))) [0, 1, 2, 3, 4]))"

text \<open>
  \<open>getChunksFromBuffer\<close>. \<open>header\<close> has five items once \<open>unpack\<close> has succeeded, so
  \<open>header[k]\<close> is \<open>header ! k\<close>. \<open>buffer[:20]\<close> and \<open>buffer[20 + header[3]:]\<close> are slices
  with one bound left out.
\<close>

definition getChunksFromBuffer ::
    "utf8_decoder \<Rightarrow> byte list \<Rightarrow> pyerror + (string \<times> byte list option)" where
  "getChunksFromBuffer utf8 buffer =
     (case unpack_iiiii (take 20 buffer) of
        Inl e \<Rightarrow> Inl e
      | Inr header \<Rightarrow>
          if header ! 0 \<noteq> 0x46546C67 then Inl Exception
          else if header ! 1 \<noteq> 2 then Inl Exception
          else if header ! 4 \<noteq> 0x4E4F534A then Inl Exception
          else if header ! 3 = 0 then Inl Exception
          else
            (case decode utf8 (py_slice buffer 20 (20 + header ! 3)) of
               Inl e \<Rightarrow> Inl e
             | Inr jsondata \<Rightarrow>
                (let data = drop (clip (length buffer) (20 + header ! 3)) buffer
                 in if length data > 8 then
                      (case unpack_ii (take 8 data) of
                         Inl e \<Rightarrow> Inl e
                       | Inr (chunkLength, chunkType) \<Rightarrow>
                           if chunkType \<noteq> 0x004E4942 then Inl Exception
                           else Inr (jsondata, Some (py_slice data 8 (8 + chunkLength))))
                    else Inr (jsondata, None))))"

text \<open>
  For stating what follows the JSON chunk: the bytes from \<open>20 + chunkLength\<close> on, and the
  \<open>chunkType\<close> field of the chunk header they begin with.
\<close>

definition bytesAfterJson :: "byte list \<Rightarrow> byte list" where
  "bytesAfterJson buffer =
     drop (clip (length buffer) (20 + from_le_signed (take 4 (drop 12 buffer)))) buffer"

definition secondChunkType :: "byte list \<Rightarrow> int" where
  "secondChunkType buffer = from_le_signed (take 4 (drop 4 (bytesAfterJson buffer)))"

text \<open>
  Two GLB files of 36 bytes: the header, a JSON chunk of four bytes (\<open>{}\<close> and two
  spaces), and a second chunk of four bytes whose type is \<open>0x12345678\<close> in the first
  file and BIN (\<open>0x004E4942\<close>) in the second.
\<close>

definition glb_with_other_chunk :: "byte list" where
  "glb_with_other_chunk =
     le_bytes 4 0x46546C67 @ le_bytes 4 2 @ le_bytes 4 36
     @ le_bytes 4 4 @ le_bytes 4 0x4E4F534A @ [0x7b, 0x7d, 0x20, 0x20]
     @ le_bytes 4 4 @ le_bytes 4 0x12345678 @ [1, 2, 3, 4]"

definition glb_with_bin_chunk :: "byte list" where
  "glb_with_bin_chunk =
     le_bytes 4 0x46546C67 @ le_bytes 4 2 @ le_bytes 4 36
     @ le_bytes 4 4 @ le_bytes 4 0x4E4F534A @ [0x7b, 0x7d, 0x20, 0x20]
     @ le_bytes 4 4 @ le_bytes 4 0x004E4942 @ [1, 2, 3, 4]"

section \<open>The glTF property decoder (gltf.py)\<close>

subsection \<open>Values, numbers and errors in sequence\<close>

text \<open>
  Running a computation that may raise and continuing with its value; \<open>mapE\<close> is a
  \<open>for\<close> loop that appends one result per item and stops at the first exception.
\<close>

definition bindE :: "pyerror + 'a \<Rightarrow> ('a \<Rightarrow> pyerror + 'b) \<Rightarrow> pyerror + 'b" where
  "bindE m f = (case m of Inl e \<Rightarrow> Inl e | Inr x \<Rightarrow> f x)"

fun mapE :: "('a \<Rightarrow> pyerror + 'b) \<Rightarrow> 'a list \<Rightarrow> pyerror + 'b list" where
  "mapE f [] = Inr []"
| "mapE f (x # xs) = bindE (f x) (\<lambda>y. bindE (mapE f xs) (\<lambda>ys. Inr (y # ys)))"

text \<open>\<open>d[k]\<close> on a dictionary, or reading a key of a JSON object that may be absent.\<close>

definition key :: "'a option \<Rightarrow> pyerror + 'a" where
  "key v = (case v of None \<Rightarrow> Inl KeyError | Some x \<Rightarrow> Inr x)"

text \<open>\<open>range(0, n)\<close>.\<close>

definition py_range :: "int \<Rightarrow> int list" where
  "py_range n = map int [0..<nat n]"

text \<open>
  Python floats are a type parameter \<open>'f\<close>, with the operations the decoder uses on
  them as a record of parameters: decoding IEEE 754 bit patterns (\<open>struct.unpack\<close> of
  \<open>f\<close> and \<open>d\<close>), \<open>float(int)\<close>, \<open>+\<close>, \<open>*\<close>, \<open>/\<close>, \<open>>\<close>, \<open>==\<close>, and the integer a float
  is equal to, if any (a float finds the integer key it equals in a dictionary).
\<close>

record 'f float_ops =
  f32_of_bits :: "32 word \<Rightarrow> 'f"
  f64_of_bits :: "64 word \<Rightarrow> 'f"
  f_of_int :: "int \<Rightarrow> 'f"
  f_add :: "'f \<Rightarrow> 'f \<Rightarrow> 'f"
  f_mul :: "'f \<Rightarrow> 'f \<Rightarrow> 'f"
  f_div :: "'f \<Rightarrow> 'f \<Rightarrow> 'f"
  f_greater :: "'f \<Rightarrow> 'f \<Rightarrow> bool"
  f_equal :: "'f \<Rightarrow> 'f \<Rightarrow> bool"
  f_int_value :: "'f \<Rightarrow> int option"

text \<open>A JSON number, and the values the decoder returns. Tuples and lists are both \<open>VSeq\<close>.\<close>

datatype 'f number = NInt int | NFloat 'f

datatype 'f pyval = VInt int | VFloat 'f | VBool bool | VStr string | VSeq "'f pyval list"

definition to_float :: "'f float_ops \<Rightarrow> 'f number \<Rightarrow> 'f" where
  "to_float ops x = (case x of NInt i \<Rightarrow> f_of_int ops i | NFloat y \<Rightarrow> y)"

definition num_add :: "'f float_ops \<Rightarrow> 'f number \<Rightarrow> 'f number \<Rightarrow> 'f number" where
  "num_add ops x y =
     (case (x, y) of
        (NInt a, NInt b) \<Rightarrow> NInt (a + b)
      | _ \<Rightarrow> NFloat (f_add ops (to_float ops x) (to_float ops y)))"

definition num_mul :: "'f float_ops \<Rightarrow> 'f number \<Rightarrow> 'f number \<Rightarrow> 'f number" where
  "num_mul ops x y =
     (case (x, y) of
        (NInt a, NInt b) \<Rightarrow> NInt (a * b)
      | _ \<Rightarrow> NFloat (f_mul ops (to_float ops x) (to_float ops y)))"

text \<open>\<open>x != k\<close> for a number \<open>x\<close> and an integer literal \<open>k\<close>.\<close>

definition num_differs :: "'f float_ops \<Rightarrow> 'f number \<Rightarrow> int \<Rightarrow> bool" where
  "num_differs ops x k =
     (case x of NInt a \<Rightarrow> a \<noteq> k | NFloat y \<Rightarrow> \<not> f_equal ops y (f_of_int ops k))"

text \<open>
  A decoded value as an operand of arithmetic: integers, floats and booleans (which are
  integers in Python) are numbers; with a string or a sequence, \<open>offset + scale * value\<close>
  ends in \<open>TypeError\<close>.
\<close>

definition operand :: "'f pyval \<Rightarrow> pyerror + 'f number" where
  "operand v =
     (case v of
        VInt i \<Rightarrow> Inr (NInt i)
      | VFloat x \<Rightarrow> Inr (NFloat x)
      | VBool b \<Rightarrow> Inr (NInt (if b then 1 else 0))
      | _ \<Rightarrow> Inl TypeError)"

definition as_value :: "'f number \<Rightarrow> 'f pyval" where
  "as_value x = (case x of NInt i \<Rightarrow> VInt i | NFloat y \<Rightarrow> VFloat y)"

subsection \<open>Component types\<close>

definition componentTypeSizeInBytes :: "string option \<Rightarrow> nat" where
  "componentTypeSizeInBytes propType =
     (if propType = Some ''UINT8'' \<or> propType = Some ''INT8'' then 1
      else if propType = Some ''UINT16'' \<or> propType = Some ''INT16'' then 2
      else if propType = Some ''INT32'' \<or> propType = Some ''UINT32''
              \<or> propType = Some ''FLOAT32'' then 4
      else if propType = Some ''FLOAT64'' \<or> propType = Some ''INT64''
              \<or> propType = Some ''UINT64'' then 8
      else 1)"

text \<open>
  \<open>max(value / 127.0, -1.0)\<close> keeps its first argument unless the second is greater.
  The float literals are the floats of the integers they denote.
\<close>

definition max_with_minus_one :: "'f float_ops \<Rightarrow> 'f \<Rightarrow> 'f" where
  "max_with_minus_one ops x =
     (if f_greater ops (f_of_int ops (- 1)) x then f_of_int ops (- 1) else x)"

definition denormalize :: "'f float_ops \<Rightarrow> string option \<Rightarrow> 'f number \<Rightarrow> pyerror + 'f number" where
  "denormalize ops propType v =
     (if propType = Some ''UINT8'' then
        Inr (NFloat (f_div ops (to_float ops v) (f_of_int ops 255)))
      else if propType = Some ''INT8'' then
        Inr (NFloat (max_with_minus_one ops (f_div ops (to_float ops v) (f_of_int ops 127))))
      else if propType = Some ''UINT16'' then
        Inr (NFloat (f_div ops (to_float ops v) (f_of_int ops 65535)))
      else if propType = Some ''INT16'' then
        Inr (NFloat (max_with_minus_one ops (f_div ops (to_float ops v) (f_of_int ops 32767))))
      else if propType = Some ''UINT32'' then
        Inr (NFloat (f_div ops (to_float ops v) (f_of_int ops 4294967295)))
      else if propType = Some ''INT32'' then
        Inr (NFloat (max_with_minus_one ops
                       (f_div ops (to_float ops v) (f_of_int ops 2147483647))))
      else if propType = Some ''UINT64'' then
        Inr (NFloat (f_div ops (to_float ops v) (f_of_int ops 18446744073709551615)))
      else if propType = Some ''INT64'' then
        Inr (NFloat (max_with_minus_one ops
                       (f_div ops (to_float ops v) (f_of_int ops 9223372036854775807))))
      else Inl ValueError)"

definition applyOffsetScale ::
    "'f float_ops \<Rightarrow> string option \<Rightarrow> 'f pyval \<Rightarrow> 'f number \<Rightarrow> 'f number \<Rightarrow> bool
      \<Rightarrow> pyerror + 'f pyval" where
  "applyOffsetScale ops propType v offset scale denormalizeValue =
     (if denormalizeValue then
        bindE (operand v) (\<lambda>x.
        bindE (denormalize ops propType x) (\<lambda>d.
          Inr (as_value (num_add ops offset (num_mul ops scale d)))))
      else
        bindE (operand v) (\<lambda>x. Inr (as_value (num_add ops offset (num_mul ops scale x)))))"

definition getComponentCount :: "string \<Rightarrow> int" where
  "getComponentCount propType =
     (if propType = ''SCALAR'' then 1
      else if propType = ''VEC2'' then 2
      else if propType = ''VEC3'' then 3
      else if propType = ''VEC4'' then 4
      else if propType = ''MAT2'' then 4
      else if propType = ''MAT3'' then 9
      else if propType = ''MAT4'' then 16
      else 1)"

subsection \<open>Unpacking\<close>

text \<open>
  \<open>struct.unpack('<' + str(count) + c, data)\<close> for the format character \<open>c\<close> of a
  component type: \<open>count\<close> little-endian items. It raises \<open>struct.error\<close> when \<open>count\<close> is
  negative (the format is malformed) and when \<open>data\<close> has not exactly the size of the
  format. \<open>pieces k n\<close> cuts the first \<open>k\<close> items of \<open>n\<close> bytes.
\<close>

fun pieces :: "nat \<Rightarrow> nat \<Rightarrow> 'a list \<Rightarrow> 'a list list" where
  "pieces 0 n xs = []"
| "pieces (Suc k) n xs = take n xs # pieces k n (drop n xs)"

definition unpack_item :: "'f float_ops \<Rightarrow> string \<Rightarrow> byte list \<Rightarrow> 'f pyval" where
  "unpack_item ops propType bs =
     (if propType = ''FLOAT32'' then VFloat (f32_of_bits ops (word_of_int (from_le bs)))
      else if propType = ''FLOAT64'' then VFloat (f64_of_bits ops (word_of_int (from_le bs)))
      else if propType = ''INT8'' \<or> propType = ''INT16'' \<or> propType = ''INT32''
              \<or> propType = ''INT64'' then VInt (from_le_signed bs)
      else VInt (from_le bs))"

definition struct_unpack ::
    "'f float_ops \<Rightarrow> string \<Rightarrow> int \<Rightarrow> byte list \<Rightarrow> pyerror + 'f pyval list" where
  "struct_unpack ops propType count data =
     (if count < 0
         \<or> int (length data) \<noteq> count * int (componentTypeSizeInBytes (Some propType))
      then Inl StructError
      else Inr (map (unpack_item ops propType)
                  (pieces (nat count) (componentTypeSizeInBytes (Some propType)) data)))"

definition numericTypes :: "string list" where
  "numericTypes = [''UINT8'', ''INT8'', ''UINT16'', ''INT16'', ''UINT32'', ''INT32'',
                   ''UINT64'', ''INT64'', ''FLOAT32'', ''FLOAT64'']"

definition readScalarValues ::
    "'f float_ops \<Rightarrow> string option \<Rightarrow> int \<Rightarrow> byte list \<Rightarrow> pyerror + 'f pyval list" where
  "readScalarValues ops propType count data =
     (case propType of
        None \<Rightarrow> Inl ValueError
      | Some t \<Rightarrow> if t \<in> set numericTypes then struct_unpack ops t count data
                  else Inl ValueError)"

text \<open>
  \<open>readFixedSizeArrayValues\<close>. The test \<open>len(data) / elementSize < arrayCount\<close> divides
  as floats and raises \<open>ZeroDivisionError\<close> for an element size of zero; for the sizes
  that occur it is the comparison of integers written here. An unhandled component
  type is logged and appends nothing.
\<close>

definition readFixedSizeArrayValues ::
    "'f float_ops \<Rightarrow> string \<Rightarrow> int \<Rightarrow> int \<Rightarrow> byte list \<Rightarrow> pyerror + 'f pyval list" where
  "readFixedSizeArrayValues ops componentType arrayCount componentCount data =
     (let elementSize = int (componentTypeSizeInBytes (Some componentType)) * componentCount
      in if elementSize = 0 then Inl ZeroDivisionError
         else if (if 0 < elementSize then int (length data) < arrayCount * elementSize
                  else arrayCount * elementSize < int (length data))
           then Inl Exception
         else if componentType \<in> set numericTypes then
           mapE (\<lambda>i. bindE (struct_unpack ops componentType componentCount
                              (py_slice data (i * elementSize) ((i + 1) * elementSize)))
                       (\<lambda>item. Inr (VSeq item)))
             (py_range arrayCount)
         else Inr [])"

text \<open>An offset read from an offset buffer, used as an index or a slice bound.\<close>

definition as_index :: "'f pyval \<Rightarrow> pyerror + int" where
  "as_index v =
     (case v of VInt i \<Rightarrow> Inr i | VBool b \<Rightarrow> Inr (if b then 1 else 0) | _ \<Rightarrow> Inl TypeError)"

definition offset_at :: "'f pyval list \<Rightarrow> int \<Rightarrow> pyerror + int" where
  "offset_at offsets i = bindE (py_index offsets i) as_index"

text \<open>
  \<open>readDynamicSizeArrayValues\<close>, called with \<open>arrayOffsets\<close> and \<open>data\<close> that are not
  \<open>None\<close>. One row per pair of successive array offsets.
\<close>

definition readDynamicSizeArrayValues ::
    "'f float_ops \<Rightarrow> utf8_decoder \<Rightarrow> string \<Rightarrow> string option \<Rightarrow> 'f pyval list
      \<Rightarrow> 'f pyval list option \<Rightarrow> byte list \<Rightarrow> pyerror + 'f pyval list" where
  "readDynamicSizeArrayValues ops utf8 propType componentType arrayOffsets stringOffsets data =
     mapE (\<lambda>i.
        if propType = ''STRING'' then
          (case stringOffsets of
             None \<Rightarrow> Inl ValueError
           | Some so \<Rightarrow>
               bindE (offset_at arrayOffsets (i + 1)) (\<lambda>hi.
               bindE (offset_at arrayOffsets i) (\<lambda>lo.
               bindE (mapE (\<lambda>j.
                        bindE (offset_at arrayOffsets i) (\<lambda>base.
                        bindE (offset_at so (base + j)) (\<lambda>b.
                        bindE (offset_at arrayOffsets i) (\<lambda>base'.
                        bindE (offset_at so (base' + j + 1)) (\<lambda>e.
                        bindE (decode utf8 (py_slice data b e)) (\<lambda>str. Inr (VStr str)))))))
                      (py_range (hi - lo)))
                 (\<lambda>arrayItem. Inr (VSeq arrayItem)))))
        else
          bindE (offset_at arrayOffsets i) (\<lambda>b.
          bindE (offset_at arrayOffsets (i + 1)) (\<lambda>e.
            (let rawbytes = py_slice data b e;
                 componentCount =
                   int (length rawbytes) div int (componentTypeSizeInBytes componentType)
             in bindE (readScalarValues ops componentType componentCount rawbytes)
                  (\<lambda>item. Inr (VSeq item))))))
       (py_range (int (length arrayOffsets) - 1))"

subsection \<open>The document\<close>

datatype Mode = UNKNOWN | EXT_FEATURE_METADATA | EXT_STRUCTURAL_METADATA

text \<open>
  The JSON objects the decoder reads, with the keys it reads; a key that may be absent is
  an \<open>option\<close>. \<open>TableProperty\<close> is an entry of a table's \<open>properties\<close> (in either
  generation's spelling), \<open>ClassProperty\<close> an entry of a schema class's \<open>properties\<close>.
\<close>

record BufferView =
  bv_buffer :: int
  bv_byteOffset :: "int option"
  bv_byteLength :: int

record TableProperty =
  tp_bufferView :: "int option"
  tp_values :: "int option"
  tp_stringOffsetBufferView :: "int option"
  tp_stringOffsets :: "int option"
  tp_arrayOffsets :: "int option"
  tp_offsetType :: "string option"
  tp_arrayOffsetType :: "string option"
  tp_stringOffsetType :: "string option"

record FeatureTable =
  ft_count :: int
  ft_class :: string
  ft_properties :: "string \<rightharpoonup> TableProperty"

record 'f ClassProperty =
  cp_type :: "string option"
  cp_componentType :: "string option"
  cp_array :: "bool option"
  cp_count :: "int option"
  cp_componentCount :: "int option"
  cp_enumType :: "string option"
  cp_normalized :: "bool option"
  cp_offset :: "'f number option"
  cp_scale :: "'f number option"

record EnumSchema =
  es_valueType :: "string option"
  es_values :: "(int \<times> string) list"

text \<open>
  A \<open>GltfDocument\<close> after \<open>loadMetadata\<close> and \<open>loadAllBuffers\<close>: \<open>propertyTables\<close> is
  \<open>getNamedTable\<close> as a map from names, \<open>classes\<close> and \<open>enums\<close> are what \<open>getClasses\<close>
  and \<open>getEnums\<close> return, with each class given by its \<open>properties\<close>. An entry of
  \<open>buffers\<close> is \<open>None\<close> where a GLB came without a BIN chunk.
\<close>

record 'f GltfDocument =
  mode :: Mode
  bufferViews :: "BufferView list"
  buffers :: "byte list option list"
  propertyTables :: "string \<rightharpoonup> FeatureTable"
  classes :: "string \<rightharpoonup> (string \<rightharpoonup> 'f ClassProperty)"
  enums :: "string \<rightharpoonup> EnumSchema"

text \<open>\<open>compatMap\<close>: the key of each generation, as the field it selects.\<close>

definition compat_bufferView :: "Mode \<Rightarrow> TableProperty \<Rightarrow> int option" where
  "compat_bufferView m tp = (if m = EXT_FEATURE_METADATA then tp_bufferView tp else tp_values tp)"

definition compat_stringOffsetBufferView :: "Mode \<Rightarrow> TableProperty \<Rightarrow> int option" where
  "compat_stringOffsetBufferView m tp =
     (if m = EXT_FEATURE_METADATA then tp_stringOffsetBufferView tp else tp_stringOffsets tp)"

definition compat_arrayOffsetBufferView :: "Mode \<Rightarrow> TableProperty \<Rightarrow> int option" where
  "compat_arrayOffsetBufferView m tp =
     (if m = EXT_FEATURE_METADATA then tp_stringOffsetBufferView tp else tp_arrayOffsets tp)"

definition compat_componentCount :: "Mode \<Rightarrow> 'f ClassProperty \<Rightarrow> int option" where
  "compat_componentCount m cp =
     (if m = EXT_FEATURE_METADATA then cp_componentCount cp else cp_count cp)"

text \<open>Slicing a buffer; a buffer that is \<open>None\<close> is not subscriptable.\<close>

definition buf_slice :: "byte list option \<Rightarrow> int \<Rightarrow> int \<Rightarrow> pyerror + byte list" where
  "buf_slice buffer i j =
     (case buffer of None \<Rightarrow> Inl TypeError | Some b \<Rightarrow> Inr (py_slice b i j))"

definition get_default :: "'a \<Rightarrow> 'a option \<Rightarrow> 'a" where
  "get_default d v = (case v of None \<Rightarrow> d | Some x \<Rightarrow> x)"

text \<open>\<open>math.ceil(n / 8)\<close> for an integer \<open>n\<close>.\<close>

definition ceil8 :: "int \<Rightarrow> int" where
  "ceil8 n = - ((- n) div 8)"

text \<open>\<open>((byteValues[byteIndex] >> bitIndex) & 1) == 1\<close>.\<close>

definition bit_value :: "'f pyval list \<Rightarrow> int \<Rightarrow> pyerror + 'f pyval" where
  "bit_value byteValues k =
     bindE (py_index byteValues (k div 8)) (\<lambda>byte.
     bindE (as_index byte) (\<lambda>b. Inr (VBool (drop_bit (nat (k mod 8)) b AND 1 = 1))))"

text \<open>
  \<open>valueToEnumMap[itemValue]\<close>: the dictionary is filled in the order of the schema's
  \<open>values\<close>, a later item replacing an earlier one with the same value.
\<close>

definition enumName :: "'f float_ops \<Rightarrow> EnumSchema \<Rightarrow> 'f pyval \<Rightarrow> pyerror + 'f pyval" where
  "enumName ops enumSchema itemValue =
     (case (case itemValue of
              VInt v \<Rightarrow> Some v
            | VFloat x \<Rightarrow> f_int_value ops x
            | VBool b \<Rightarrow> Some (if b then 1 else 0)
            | _ \<Rightarrow> None) of
        None \<Rightarrow> Inl KeyError
      | Some v \<Rightarrow>
          (case map_of (rev (es_values enumSchema)) v of
             None \<Rightarrow> Inl KeyError
           | Some name \<Rightarrow> Inr (VStr name)))"

definition enumNames :: "'f float_ops \<Rightarrow> EnumSchema \<Rightarrow> 'f pyval \<Rightarrow> pyerror + 'f pyval" where
  "enumNames ops enumSchema arrayValue =
     (case arrayValue of
        VSeq items \<Rightarrow> bindE (mapE (enumName ops enumSchema) items) (\<lambda>names. Inr (VSeq names))
      | _ \<Rightarrow> Inl TypeError)"

text \<open>
  The block that both array branches end with: offset, scale and normalization of the
  rows, unless the component type is \<open>STRING\<close> or \<open>BOOLEAN\<close>.
\<close>

definition transformRows ::
    "'f float_ops \<Rightarrow> 'f ClassProperty \<Rightarrow> string option \<Rightarrow> 'f pyval list
      \<Rightarrow> pyerror + 'f pyval list" where
  "transformRows ops cp componentType vals =
     (if componentType \<noteq> Some ''STRING'' \<and> componentType \<noteq> Some ''BOOLEAN'' then
        (let offset = get_default (NInt 0) (cp_offset cp);
             scale = get_default (NInt 1) (cp_scale cp);
             denorm = get_default False (cp_normalized cp)
         in if num_differs ops offset 0 \<or> num_differs ops scale 1 \<or> denorm \<noteq> False then
              mapE (\<lambda>arrayVal.
                      case arrayVal of
                        VSeq items \<Rightarrow>
                          bindE (mapE (\<lambda>v. applyOffsetScale ops componentType v
                                               offset scale denorm) items)
                            (\<lambda>componentValue. Inr (VSeq componentValue))
                      | _ \<Rightarrow> Inl TypeError)
                vals
            else Inr vals)
      else Inr vals)"

subsection \<open>getFeatureTablePropertyValues, branch by branch\<close>

text \<open>
  The fixed-size array branch for a class property without \<open>componentType\<close> and with type
  \<open>BOOLEAN\<close>: \<open>count * componentCount\<close> bits, grouped in rows of \<open>componentCount\<close>.
\<close>

definition fixedBooleanArrays ::
    "'f float_ops \<Rightarrow> int \<Rightarrow> int \<Rightarrow> byte list option \<Rightarrow> int \<Rightarrow> int
      \<Rightarrow> pyerror + 'f pyval list" where
  "fixedBooleanArrays ops count componentCount buffer bufferByteOffset bufferByteLength =
     (let byteCount = ceil8 (count * componentCount)
      in bindE (buf_slice buffer bufferByteOffset
                  (bufferByteOffset + min byteCount bufferByteLength)) (\<lambda>raw.
         bindE (struct_unpack ops ''UINT8'' byteCount raw) (\<lambda>byteValues.
           mapE (\<lambda>i. bindE (mapE (\<lambda>j. bit_value byteValues (i * componentCount + j))
                                 (py_range componentCount))
                        (\<lambda>componentValues. Inr (VSeq componentValues)))
             (py_range count))))"

text \<open>The same branch for type \<open>ENUM\<close>.\<close>

definition fixedEnumArrays ::
    "'f float_ops \<Rightarrow> (string \<rightharpoonup> EnumSchema) \<Rightarrow> 'f ClassProperty \<Rightarrow> int \<Rightarrow> int
      \<Rightarrow> byte list option \<Rightarrow> int \<Rightarrow> int \<Rightarrow> pyerror + 'f pyval list" where
  "fixedEnumArrays ops enms cp count componentCount buffer bufferByteOffset bufferByteLength =
     bindE (key (cp_enumType cp)) (\<lambda>enumType.
       case enms enumType of
         None \<Rightarrow> Inl Exception
       | Some enumSchema \<Rightarrow>
           bindE (buf_slice buffer bufferByteOffset (bufferByteOffset + bufferByteLength))
             (\<lambda>raw.
           bindE (readFixedSizeArrayValues ops (get_default ''UINT16'' (es_valueType enumSchema))
                    count componentCount raw) (\<lambda>enumValues.
             mapE (enumNames ops enumSchema) enumValues)))"

text \<open>
  The fixed-size array branch as a whole. Without \<open>componentType\<close> and with a type other
  than \<open>BOOLEAN\<close> and \<open>ENUM\<close>, the name \<open>componentType\<close> is read before it is bound.
\<close>

definition fixedSizeArrays ::
    "'f float_ops \<Rightarrow> 'f GltfDocument \<Rightarrow> 'f ClassProperty \<Rightarrow> string \<Rightarrow> int \<Rightarrow> int
      \<Rightarrow> byte list option \<Rightarrow> int \<Rightarrow> int \<Rightarrow> pyerror + 'f pyval list" where
  "fixedSizeArrays ops doc cp propType count componentCount buffer bufferByteOffset
      bufferByteLength =
     (case cp_componentType cp of
        None \<Rightarrow>
          if propType = ''BOOLEAN'' then
            fixedBooleanArrays ops count componentCount buffer bufferByteOffset bufferByteLength
          else if propType = ''ENUM'' then
            fixedEnumArrays ops (enums doc) cp count componentCount buffer bufferByteOffset
              bufferByteLength
          else Inl UnboundLocalError
      | Some componentType \<Rightarrow>
          bindE (buf_slice buffer bufferByteOffset (bufferByteOffset + bufferByteLength))
            (\<lambda>raw.
          bindE (readFixedSizeArrayValues ops componentType count
                   (if mode doc = EXT_STRUCTURAL_METADATA
                    then componentCount * getComponentCount propType else componentCount)
                   raw) (\<lambda>vals.
            transformRows ops cp (Some componentType) vals)))"

text \<open>
  The dynamic array branch. The values buffer view's \<open>byteOffset\<close> is read without a
  default here.
\<close>

definition dynamicArrays ::
    "'f float_ops \<Rightarrow> utf8_decoder \<Rightarrow> 'f GltfDocument \<Rightarrow> TableProperty \<Rightarrow> 'f ClassProperty
      \<Rightarrow> string \<Rightarrow> int \<Rightarrow> BufferView \<Rightarrow> byte list option \<Rightarrow> pyerror + 'f pyval list" where
  "dynamicArrays ops utf8 doc tp cp propType count bv buffer =
     bindE (key (compat_arrayOffsetBufferView (mode doc) tp)) (\<lambda>arrayOffsetBufferView.
     bindE (py_index (bufferViews doc) arrayOffsetBufferView) (\<lambda>abv.
     bindE (py_index (buffers doc) (bv_buffer abv)) (\<lambda>arrayOffsetBuffer.
     bindE (buf_slice arrayOffsetBuffer (get_default 0 (bv_byteOffset abv))
              (get_default 0 (bv_byteOffset abv) + bv_byteLength abv)) (\<lambda>araw.
     bindE (readScalarValues ops (Some (get_default ''UINT32'' (tp_arrayOffsetType tp)))
              (count + 1) araw) (\<lambda>arrayOffsets.
     bindE (key (bv_byteOffset bv)) (\<lambda>bufferByteOffset.
     bindE (if propType = ''STRING'' then
              bindE (key (compat_stringOffsetBufferView (mode doc) tp))
                (\<lambda>stringOffsetBufferView.
              bindE (py_index (bufferViews doc) stringOffsetBufferView) (\<lambda>sbv.
              bindE (py_index (buffers doc) (bv_buffer sbv)) (\<lambda>stringOffsetBuffer.
              bindE (buf_slice stringOffsetBuffer (get_default 0 (bv_byteOffset sbv))
                       (get_default 0 (bv_byteOffset sbv) + bv_byteLength sbv)) (\<lambda>sraw.
              bindE (readScalarValues ops
                       (Some (get_default ''UINT32'' (tp_stringOffsetType tp)))
                       (bv_byteLength sbv div
                          int (componentTypeSizeInBytes
                                 (Some (get_default ''UINT32'' (tp_stringOffsetType tp)))))
                       sraw)
                (\<lambda>stringOffsets. Inr (Some stringOffsets))))))
            else Inr None) (\<lambda>stringOffsets.
       if cp_componentType cp = Some ''ENUM'' then
         bindE (key (cp_enumType cp)) (\<lambda>enumType.
           case enums doc enumType of
             None \<Rightarrow> Inl Exception
           | Some enumSchema \<Rightarrow>
               bindE (buf_slice buffer bufferByteOffset (bufferByteOffset + bv_byteLength bv))
                 (\<lambda>raw.
               bindE (readDynamicSizeArrayValues ops utf8 propType
                        (Some (get_default ''UINT16'' (es_valueType enumSchema)))
                        arrayOffsets stringOffsets raw) (\<lambda>enumValues.
                 mapE (enumNames ops enumSchema) enumValues)))
       else
         bindE (buf_slice buffer bufferByteOffset (bufferByteOffset + bv_byteLength bv))
           (\<lambda>raw.
         bindE (readDynamicSizeArrayValues ops utf8 propType (cp_componentType cp)
                  arrayOffsets stringOffsets raw) (\<lambda>vals.
           transformRows ops cp (cp_componentType cp) vals)))))))))"

text \<open>The scalar \<open>BOOLEAN\<close> branch. It reads the view's \<open>byteOffset\<close> without a default.\<close>

definition booleanValues ::
    "'f float_ops \<Rightarrow> int \<Rightarrow> BufferView \<Rightarrow> byte list option \<Rightarrow> pyerror + 'f pyval list" where
  "booleanValues ops count bv buffer =
     (let byteCount = ceil8 count
      in bindE (key (bv_byteOffset bv)) (\<lambda>byteOffset.
         bindE (buf_slice buffer byteOffset (byteOffset + min byteCount (bv_byteLength bv)))
           (\<lambda>raw.
         bindE (struct_unpack ops ''UINT8'' byteCount raw) (\<lambda>byteValues.
           mapE (bit_value byteValues) (py_range count)))))"

text \<open>The scalar \<open>ENUM\<close> branch.\<close>

definition enumValues ::
    "'f float_ops \<Rightarrow> (string \<rightharpoonup> EnumSchema) \<Rightarrow> 'f ClassProperty \<Rightarrow> int
      \<Rightarrow> byte list option \<Rightarrow> int \<Rightarrow> int \<Rightarrow> pyerror + 'f pyval list" where
  "enumValues ops enms cp count buffer bufferByteOffset bufferByteLength =
     bindE (key (cp_enumType cp)) (\<lambda>enumType.
       case enms enumType of
         None \<Rightarrow> Inl Exception
       | Some enumSchema \<Rightarrow>
           bindE (buf_slice buffer bufferByteOffset (bufferByteOffset + bufferByteLength))
             (\<lambda>raw.
           bindE (readScalarValues ops (Some (get_default ''UINT16'' (es_valueType enumSchema)))
                    count raw) (\<lambda>vals.
             mapE (enumName ops enumSchema) vals)))"

text \<open>
  The branches for the property types \<open>INT32\<close>, \<open>UINT32\<close>, \<open>UINT8\<close> and \<open>FLOAT32\<close> of the
  older generation: one \<open>struct.unpack\<close> of the whole view.
\<close>

definition legacyScalarValues ::
    "'f float_ops \<Rightarrow> string \<Rightarrow> int \<Rightarrow> BufferView \<Rightarrow> byte list option
      \<Rightarrow> pyerror + 'f pyval list" where
  "legacyScalarValues ops propType count bv buffer =
     bindE (key (bv_byteOffset bv)) (\<lambda>byteOffset.
     bindE (buf_slice buffer byteOffset (byteOffset + bv_byteLength bv)) (\<lambda>raw.
       struct_unpack ops propType count raw))"

text \<open>
  The scalar \<open>STRING\<close> branch. Its body is a \<open>try\<close> whose handler raises \<open>Exception\<close>
  with a message that reads \<open>self.doc["bufferViews"][stringOffsetBufferView]\<close>: when the
  \<open>try\<close> failed before that name was bound the handler raises \<open>UnboundLocalError\<close>, and
  when the index is out of range it raises \<open>IndexError\<close> again.
\<close>

definition stringValues ::
    "utf8_decoder \<Rightarrow> 'f float_ops \<Rightarrow> 'f GltfDocument \<Rightarrow> TableProperty \<Rightarrow> int \<Rightarrow> BufferView
      \<Rightarrow> byte list option \<Rightarrow> pyerror + 'f pyval list" where
  "stringValues utf8 ops doc tp count bv buffer =
     (if tp_offsetType tp \<noteq> None \<and> tp_offsetType tp \<noteq> Some ''UINT32'' then Inl Exception
      else
        (case compat_stringOffsetBufferView (mode doc) tp of
           None \<Rightarrow> Inl UnboundLocalError
         | Some stringOffsetBufferView \<Rightarrow>
            (case py_index (bufferViews doc) stringOffsetBufferView of
               Inl e \<Rightarrow> Inl e
             | Inr sbv \<Rightarrow>
                (case
                   bindE (py_index (buffers doc) (bv_buffer sbv)) (\<lambda>stringOffsetBuffer.
                   bindE (key (bv_byteOffset sbv)) (\<lambda>start.
                     (let numOffsets = count + 1;
                          len = (if bv_byteLength sbv > numOffsets * 4 then (count + 1) * 4
                                 else bv_byteLength sbv)
                      in bindE (buf_slice stringOffsetBuffer start (start + len)) (\<lambda>sraw.
                         bindE (struct_unpack ops ''UINT32'' numOffsets sraw) (\<lambda>stringOffsets.
                         bindE (key (bv_byteOffset bv)) (\<lambda>bufferByteOffset.
                           mapE (\<lambda>i.
                              bindE (offset_at stringOffsets i) (\<lambda>b.
                              bindE (offset_at stringOffsets (i + 1)) (\<lambda>e.
                              bindE (buf_slice buffer (bufferByteOffset + b)
                                       (bufferByteOffset + e)) (\<lambda>rawbytes.
                              bindE (decode utf8 rawbytes) (\<lambda>str. Inr (VStr str))))))
                             (py_range (int (length stringOffsets) - 1))))))))
                 of Inl e \<Rightarrow> Inl Exception | Inr vals \<Rightarrow> Inr vals))))"

text \<open>
  The branch of the newer generation for the remaining types: \<open>SCALAR\<close>, vectors and
  matrices, by their \<open>componentType\<close>.
\<close>

definition structuralValues ::
    "'f float_ops \<Rightarrow> 'f ClassProperty \<Rightarrow> string \<Rightarrow> int \<Rightarrow> byte list option \<Rightarrow> int \<Rightarrow> int
      \<Rightarrow> pyerror + 'f pyval list" where
  "structuralValues ops cp propType count buffer bufferByteOffset bufferByteLength =
     bindE (key (cp_componentType cp)) (\<lambda>componentType.
       if propType = ''SCALAR'' then
         bindE (buf_slice buffer bufferByteOffset (bufferByteOffset + bufferByteLength))
           (\<lambda>raw. readScalarValues ops (Some componentType) count raw)
       else if propType \<in> set [''VEC2'', ''VEC3'', ''VEC4'', ''MAT2'', ''MAT3'', ''MAT4''] then
         bindE (buf_slice buffer bufferByteOffset (bufferByteOffset + bufferByteLength))
           (\<lambda>raw. readFixedSizeArrayValues ops componentType count
                     (getComponentCount propType) raw)
       else Inl Exception)"

subsection \<open>getFeatureTablePropertyValues\<close>

text \<open>
  The function, for a table name that is given (with \<open>ftName = None\<close> the source calls a
  method that \<open>PropertyTables\<close> does not have). The result is \<open>None\<close> where the source
  logs \<open>Unhandled type\<close> and falls off its end.
\<close>

definition getFeatureTablePropertyValues ::
    "'f float_ops \<Rightarrow> utf8_decoder \<Rightarrow> 'f GltfDocument \<Rightarrow> string \<Rightarrow> string
      \<Rightarrow> pyerror + 'f pyval list option" where
  "getFeatureTablePropertyValues ops utf8 doc ftName propName =
     bindE (key (propertyTables doc ftName)) (\<lambda>featureTable.
       case ft_properties featureTable propName of
         None \<Rightarrow> Inl Exception
       | Some tp \<Rightarrow>
          if mode doc = UNKNOWN then Inl Exception
          else
           bindE (key (compat_bufferView (mode doc) tp)) (\<lambda>bufferView.
            case (case classes doc (ft_class featureTable) of
                    None \<Rightarrow> None
                  | Some props \<Rightarrow>
                      (case props propName of
                         None \<Rightarrow> None
                       | Some cp \<Rightarrow> (case cp_type cp of None \<Rightarrow> None | Some t \<Rightarrow> Some (cp, t))))
            of
              None \<Rightarrow> Inl Exception
            | Some (cp, propType) \<Rightarrow>
               bindE (py_index (bufferViews doc) bufferView) (\<lambda>bv.
               bindE (py_index (buffers doc) (bv_buffer bv)) (\<lambda>buffer.
                 (let bufferByteOffset = get_default 0 (bv_byteOffset bv);
                      bufferByteLength = bv_byteLength bv;
                      count = ft_count featureTable;
                      isArrayProp =
                        (mode doc = EXT_STRUCTURAL_METADATA \<and> cp_array cp = Some True
                         \<or> mode doc = EXT_FEATURE_METADATA \<and> propType = ''ARRAY'')
                  in if isArrayProp then
                       (case compat_componentCount (mode doc) cp of
                          Some componentCount \<Rightarrow>
                            bindE (fixedSizeArrays ops doc cp propType count componentCount
                                     buffer bufferByteOffset bufferByteLength)
                              (\<lambda>vals. Inr (Some vals))
                        | None \<Rightarrow>
                            bindE (dynamicArrays ops utf8 doc tp cp propType count bv buffer)
                              (\<lambda>vals. Inr (Some vals)))
                     else if propType = ''BOOLEAN'' then
                       bindE (booleanValues ops count bv buffer) (\<lambda>vals. Inr (Some vals))
                     else if propType = ''ENUM'' then
                       bindE (enumValues ops (enums doc) cp count buffer bufferByteOffset
                                bufferByteLength) (\<lambda>vals. Inr (Some vals))
                     else if propType = ''INT32'' \<or> propType = ''UINT32''
                             \<or> propType = ''UINT8'' \<or> propType = ''FLOAT32'' then
                       bindE (legacyScalarValues ops propType count bv buffer)
                         (\<lambda>vals. Inr (Some vals))
                     else if propType = ''STRING'' then
                       bindE (stringValues utf8 ops doc tp count bv buffer)
                         (\<lambda>vals. Inr (Some vals))
                     else if mode doc = EXT_STRUCTURAL_METADATA then
                       bindE (structuralValues ops cp propType count buffer bufferByteOffset
                                bufferByteLength) (\<lambda>vals. Inr (Some vals))
                     else Inr None)))))"

subsection \<open>Concrete floats and documents\<close>

text \<open>
  For the concrete runs: floats as the real numbers they denote, with exact arithmetic.
  \<open>f32_value\<close> and \<open>f64_value\<close> are the values of the finite IEEE 754 bit patterns;
  nothing below decodes an infinity or a NaN.
\<close>

definition f32_value :: "32 word \<Rightarrow> real" where
  "f32_value w =
     (let v = uint w; m = v mod 2 ^ 23; e = (v div 2 ^ 23) mod 256;
          s = (if v div 2 ^ 31 = 0 then 1 else - 1)
      in if e = 0 then s * real_of_int m / 2 ^ 149
         else if 150 \<le> e then s * real_of_int (2 ^ 23 + m) * 2 ^ nat (e - 150)
         else s * real_of_int (2 ^ 23 + m) / 2 ^ nat (150 - e))"

definition f64_value :: "64 word \<Rightarrow> real" where
  "f64_value w =
     (let v = uint w; m = v mod 2 ^ 52; e = (v div 2 ^ 52) mod 2048;
          s = (if v div 2 ^ 63 = 0 then 1 else - 1)
      in if e = 0 then s * real_of_int m / 2 ^ 1074
         else if 1075 \<le> e then s * real_of_int (2 ^ 52 + m) * 2 ^ nat (e - 1075)
         else s * real_of_int (2 ^ 52 + m) / 2 ^ nat (1075 - e))"

definition exact_ops :: "real float_ops" where
  "exact_ops =
     \<lparr>f32_of_bits = f32_value, f64_of_bits = f64_value, f_of_int = real_of_int,
      f_add = (+), f_mul = (*), f_div = (/), f_greater = (\<lambda>x y. y < x), f_equal = (=),
      f_int_value = (\<lambda>x. if real_of_int \<lfloor>x\<rfloor> = x then Some \<lfloor>x\<rfloor> else None)\<rparr>"

text \<open>
  Documents of the newer generation with one table \<open>buildings\<close> of class \<open>building\<close>:
  \<open>height_doc\<close> has the FLOAT32 scalar property \<open>height\<close> over the 16 bytes of
  \<open>1.0, 2.0, 3.0, 4.0\<close>, with \<open>offset = 10\<close> and \<open>scale = 2\<close> in its class;
  \<open>flags_doc\<close> has the BOOLEAN property \<open>flag\<close> with ten elements over the bytes
  \<open>A5 02\<close>; \<open>empty_doc\<close> has \<open>height\<close> with no elements over a view of four bytes.
\<close>

definition height_values :: "byte list" where
  "height_values = [0x00,0x00,0x80,0x3F, 0x00,0x00,0x00,0x40, 0x00,0x00,0x40,0x40, 0x00,0x00,0x80,0x40]"

definition no_table_property :: TableProperty where
  "no_table_property = \<lparr>tp_bufferView = None, tp_values = None, tp_stringOffsetBufferView = None,
     tp_stringOffsets = None, tp_arrayOffsets = None, tp_offsetType = None, tp_arrayOffsetType = None,
     tp_stringOffsetType = None\<rparr>"

definition no_class_property :: "real ClassProperty" where
  "no_class_property = \<lparr>cp_type = None, cp_componentType = None, cp_array = None, cp_count = None,
     cp_componentCount = None, cp_enumType = None, cp_normalized = None, cp_offset = None, cp_scale = None\<rparr>"

definition height_doc :: "real GltfDocument" where
  "height_doc =
    \<lparr>mode = EXT_STRUCTURAL_METADATA,
     bufferViews = [\<lparr>bv_buffer = 0, bv_byteOffset = Some 0, bv_byteLength = 16\<rparr>],
     buffers = [Some height_values],
     propertyTables = [''buildings'' \<mapsto> \<lparr>ft_count = 4, ft_class = ''building'',
        ft_properties = [''height'' \<mapsto> no_table_property\<lparr>tp_values := Some 0\<rparr>]\<rparr>],
     classes = [''building'' \<mapsto> [''height'' \<mapsto> no_class_property\<lparr>cp_type := Some ''SCALAR'',
         cp_componentType := Some ''FLOAT32'', cp_offset := Some (NInt 10), cp_scale := Some (NInt 2)\<rparr>]],
     enums = Map.empty\<rparr>"


definition flags_doc :: "real GltfDocument" where
  "flags_doc =
    \<lparr>mode = EXT_STRUCTURAL_METADATA,
     bufferViews = [\<lparr>bv_buffer = 0, bv_byteOffset = Some 0, bv_byteLength = 2\<rparr>],
     buffers = [Some [0xA5, 0x02]],
     propertyTables = [''buildings'' \<mapsto> \<lparr>ft_count = 10, ft_class = ''building'',
        ft_properties = [''flag'' \<mapsto> no_table_property\<lparr>tp_values := Some 0\<rparr>]\<rparr>],
     classes = [''building'' \<mapsto> [''flag'' \<mapsto> no_class_property\<lparr>cp_type := Some ''BOOLEAN''\<rparr>]],
     enums = Map.empty\<rparr>"

definition empty_doc :: "real GltfDocument" where
  "empty_doc =
    \<lparr>mode = EXT_STRUCTURAL_METADATA,
     bufferViews = [\<lparr>bv_buffer = 0, bv_byteOffset = Some 0, bv_byteLength = 4\<rparr>],
     buffers = [Some [0, 0, 0x80, 0x3F]],
     propertyTables = [''buildings'' \<mapsto> \<lparr>ft_count = 0, ft_class = ''building'',
        ft_properties = [''height'' \<mapsto> no_table_property\<lparr>tp_values := Some 0\<rparr>]\<rparr>],
     classes = [''building'' \<mapsto> [''height'' \<mapsto> no_class_property\<lparr>cp_type := Some ''SCALAR'',
         cp_componentType := Some ''FLOAT32''\<rparr>]],
     enums = Map.empty\<rparr>"

text \<open>
  For stating properties of one property: its table, its entry in the table, its entry
  in the class, its values buffer view and the buffer of that view, when all of them
  exist.
\<close>

definition resolve ::
    "'f GltfDocument \<Rightarrow> string \<Rightarrow> string
      \<Rightarrow> (FeatureTable \<times> TableProperty \<times> 'f ClassProperty \<times> BufferView \<times> byte list) option" where
  "resolve doc ftName propName =
     (case propertyTables doc ftName of
        None \<Rightarrow> None
      | Some featureTable \<Rightarrow>
     (case ft_properties featureTable propName of
        None \<Rightarrow> None
      | Some tp \<Rightarrow>
     (case compat_bufferView (mode doc) tp of
        None \<Rightarrow> None
      | Some bufferView \<Rightarrow>
     (case classes doc (ft_class featureTable) of
        None \<Rightarrow> None
      | Some props \<Rightarrow>
     (case props propName of
        None \<Rightarrow> None
      | Some cp \<Rightarrow>
     (case py_index (bufferViews doc) bufferView of
        Inl e \<Rightarrow> None
      | Inr bv \<Rightarrow>
     (case py_index (buffers doc) (bv_buffer bv) of
        Inr (Some buffer) \<Rightarrow> Some (featureTable, tp, cp, bv, buffer)
      | _ \<Rightarrow> None)))))))"

section \<open>Properties of the index\<close>

lemma le_bytes_numeral:
  "le_bytes (numeral k) v = word_of_int (v mod 256) # le_bytes (pred_numeral k) (v div 256)"
  by (simp add: numeral_eq_Suc)

subsection \<open>Validation comes before the filter\<close>

lemma bit_disallowedFlagBits:
  "bit disallowedFlagBits n = (n = 0 \<or> n = 3 \<or> n = 5 \<or> n = 13)"
  unfolding disallowedFlagBits_def
  by (simp only: bit_or_iff bit_push_bit_iff bit_1_iff) auto

lemma flag_test_bits:
  "((f::int) AND disallowedFlagBits \<noteq> 0) = (bit f 0 \<or> bit f 3 \<or> bit f 5 \<or> bit f 13)"
proof -
  have "(f AND disallowedFlagBits = 0) = (\<forall>n. \<not> bit (f AND disallowedFlagBits) n)"
    by (simp add: bit_eq_iff)
  also have "\<dots> = (\<forall>n. \<not> (bit f n \<and> (n = 0 \<or> n = 3 \<or> n = 5 \<or> n = 13)))"
    by (simp only: bit_and_iff bit_disallowedFlagBits)
  also have "\<dots> = (\<not> (bit f 0 \<or> bit f 3 \<or> bit f 5 \<or> bit f 13))"
    by blast
  finally show ?thesis by blast
qed

lemma checkIfSupportedZipItem_error:
  "checkIfSupportedZipItem item = Inl e \<Longrightarrow> e = AssertionError"
  by (auto simp: checkIfSupportedZipItem_def split: if_splits)

lemma gatherIndex_raises:
  "item \<in> set infolist \<Longrightarrow> checkIfSupportedZipItem item = Inl e \<Longrightarrow>
   \<exists>e'. gatherIndex md5 infolist = Inl e'"
  by (induction infolist) (auto split: sum.splits prod.splits)

lemma gatherIndex_error: "gatherIndex md5 infolist = Inl e \<Longrightarrow> e = AssertionError"
  by (induction infolist)
    (auto split: sum.splits prod.splits if_splits dest: checkIfSupportedZipItem_error)

text \<open>
  C10. \<open>buildIndex\<close> validates every entry of the central directory before it looks at
  whether the entry is a directory or the index file: if any entry at all has one of the
  flag bits 0, 3, 5, 13 set, or a compression method other than 0, 8, 93, or a compressed
  size of zero with a non-zero file size, \<open>buildIndex\<close> raises and produces no blob.
  Nothing is assumed of the entry's name.
\<close>

theorem buildIndex_validates_every_entry:
  assumes "item \<in> set infolist"
    and "bit (flag_bits item) 0 \<or> bit (flag_bits item) 3 \<or> bit (flag_bits item) 5
         \<or> bit (flag_bits item) 13
         \<or> compress_type item \<notin> {0, 8, 93}
         \<or> (compress_size item = 0 \<and> file_size item \<noteq> 0)"
  shows "buildIndex md5 infolist = Inl AssertionError"
proof -
  have "checkIfSupportedZipItem item = Inl AssertionError"
    using assms(2) flag_test_bits [of "flag_bits item"]
    by (auto simp: checkIfSupportedZipItem_def)
  then obtain e where "gatherIndex md5 infolist = Inl e"
    using gatherIndex_raises [OF assms(1)] by blast
  then show ?thesis
    using gatherIndex_error by (fastforce simp: buildIndex_def)
qed

text \<open>
  An archive of a regular file \<open>a\<close> and a directory entry \<open>a/\<close> whose encryption flag
  (bit 0) is set: the directory would be filtered out, and still \<open>buildIndex\<close> raises.
\<close>

theorem buildIndex_validates_every_entry_witness:
  "is_dir \<lparr>filename = ''a/'', flag_bits = 1, compress_type = 0, compress_size = 0,
           file_size = 0, header_offset = 40\<rparr>
   \<and> buildIndex md5_sample
        [\<lparr>filename = ''a'', flag_bits = 0, compress_type = 8, compress_size = 10,
          file_size = 20, header_offset = 0\<rparr>,
         \<lparr>filename = ''a/'', flag_bits = 1, compress_type = 0, compress_size = 0,
          file_size = 0, header_offset = 40\<rparr>] = Inl AssertionError"
  using buildIndex_validates_every_entry
    [of "\<lparr>filename = ''a/'', flag_bits = 1, compress_type = 0, compress_size = 0,
           file_size = 0, header_offset = 40\<rparr>"
        "[\<lparr>filename = ''a'', flag_bits = 0, compress_type = 8, compress_size = 10,
          file_size = 20, header_offset = 0\<rparr>,
         \<lparr>filename = ''a/'', flag_bits = 1, compress_type = 0, compress_size = 0,
          file_size = 0, header_offset = 40\<rparr>]" md5_sample]
  by (simp add: is_dir_def)

subsection \<open>The round trip through the index\<close>

lemma from_le_le_bytes:
  "0 \<le> v \<Longrightarrow> v < 256 ^ k \<Longrightarrow> from_le (le_bytes k v) = v"
proof (induction k arbitrary: v)
  case 0
  then show ?case by simp
next
  case (Suc k)
  have "0 \<le> v div 256" using Suc.prems(1) by simp
  moreover have "v div 256 < 256 ^ k" using Suc.prems(2) by (simp add: div_less_iff_less_mult mult.commute)
  ultimately have "from_le (le_bytes k (v div 256)) = v div 256" by (rule Suc.IH)
  moreover have "uint (word_of_int (v mod 256) :: byte) = v mod 256"
    by (simp add: uint_word_of_int take_bit_eq_mod)
  ultimately show ?case by simp
qed

lemma length_le_bytes: "length (le_bytes k v) = k"
  by (induction k arbitrary: v) auto

lemma cast_Q_le_bytes:
  "cast_Q (le_bytes 8 v @ rest) = from_le (le_bytes 8 v) # cast_Q rest"
  by (simp add: numeral_eq_Suc)

lemma packIndex_cast:
  "packIndex es = Inr blob \<Longrightarrow> cast_Q blob = flatten es \<and> length blob = 24 * length es"
proof (induction es arbitrary: blob)
  case Nil
  then show ?case by (simp add: flatten_def)
next
  case (Cons e es)
  obtain lo hi off where e: "e = (lo, hi, off)" by (cases e) auto
  from Cons.prems obtain tl_bytes where
    r: "0 \<le> lo" "lo < 2 ^ 64" "0 \<le> hi" "hi < 2 ^ 64" "0 \<le> off" "off < 2 ^ 64"
    and t: "packIndex es = Inr tl_bytes"
    and b: "blob = (le_bytes 8 lo @ le_bytes 8 hi @ le_bytes 8 off) @ tl_bytes"
    by (auto simp: e pack_QQQ_def split: sum.splits if_splits)
  have ih: "cast_Q tl_bytes = flatten es" "length tl_bytes = 24 * length es"
    using Cons.IH [OF t] by auto
  have "from_le (le_bytes 8 lo) = lo" "from_le (le_bytes 8 hi) = hi" "from_le (le_bytes 8 off) = off"
    using r by (simp_all add: from_le_le_bytes)
  then have "cast_Q blob = lo # hi # off # cast_Q tl_bytes"
    unfolding b by (simp only: append_assoc cast_Q_le_bytes)
  then show ?case
    using ih by (simp add: flatten_def e b length_le_bytes)
qed

lemma readIndex_packIndex:
  "packIndex es = Inr blob \<Longrightarrow> readIndex blob = Inr (flatten es)"
  using packIndex_cast [of es blob] by (simp add: readIndex_def)

lemma length_flatten: "length (flatten es) = 3 * length es"
  by (induction es) (auto simp: flatten_def)

lemma flatten_nth:
  "i < length es \<Longrightarrow>
   flatten es ! (3 * i) = fst (es ! i) \<and> flatten es ! (3 * i + 1) = fst (snd (es ! i))
   \<and> flatten es ! (3 * i + 2) = snd (snd (es ! i))"
proof (induction es arbitrary: i)
  case Nil
  then show ?case by simp
next
  case (Cons e es)
  obtain lo hi off where e: "e = (lo, hi, off)" by (cases e) auto
  show ?case
  proof (cases i)
    case 0
    then show ?thesis by (simp add: flatten_def e)
  next
    case (Suc j)
    have f: "flatten (e # es) = lo # hi # off # flatten es" by (simp add: flatten_def e)
    have "3 * i = Suc (Suc (Suc (3 * j)))" using Suc by simp
    then show ?thesis using Cons.IH [of j] Cons.prems Suc by (simp add: f)
  qed
qed

lemma Index_len_flatten: "Index_len (flatten es) = int (length es)"
  by (simp add: Index_len_def length_flatten)

lemma Index_getitem_flatten:
  "i < length es \<Longrightarrow> Index_getitem (flatten es) (int i) = Inr (es ! i)"
proof -
  assume i: "i < length es"
  have n: "nat (3 * int i) = 3 * i" "nat (3 * int i + 1) = 3 * i + 1" "nat (3 * int i + 2) = 3 * i + 2"
    by (simp_all add: nat_add_distrib nat_mult_distrib)
  show ?thesis
    using i flatten_nth [OF i]
    by (simp add: Index_getitem_def py_index_def length_flatten n)
qed


lemma md5LessThan_key:
  "md5LessThan e0 e1 a b = ((e0, e1) < (a, b))"
  by (auto simp: md5LessThan_def)

lemma bisect_step:
  "low \<le> high \<Longrightarrow> Index_getitem index (low + (high - low) div 2) = Inr (e0, e1, e2) \<Longrightarrow>
   bisect index a b low high =
     (if e0 = a \<and> e1 = b then Inr (Some e2)
      else if md5LessThan e0 e1 a b then bisect index a b (low + (high - low) div 2 + 1) high
      else bisect index a b low (low + (high - low) div 2 - 1))"
  by (subst bisect.simps) simp

lemma bisect_finds:
  assumes "index = flatten es" and "sorted (map entry_key es)"
    and "0 \<le> low" and "high \<le> int (length es)"
    and "p < length es" and "low \<le> int p" and "int p \<le> high"
    and "entry_key (es ! p) = (a, b)"
  shows "\<exists>q < length es. entry_key (es ! q) = (a, b)
            \<and> bisect index a b low high = Inr (Some (snd (snd (es ! q))))"
  using assms
proof (induction index a b low high arbitrary: p rule: bisect.induct)
  case (1 index a b low high)
  define mid where "mid = low + (high - low) div 2"
  have lh: "low \<le> high" using "1.prems" by linarith
  have m1: "low \<le> mid" "mid \<le> high" using lh by (auto simp: mid_def)
  have "mid \<noteq> int (length es)"
  proof
    assume "mid = int (length es)"
    then have "low = high" using m1 "1.prems"(4) by (simp add: mid_def)
    then show False using \<open>mid = int (length es)\<close> "1.prems" m1 by linarith
  qed
  then have m2: "nat mid < length es" "int (nat mid) = mid"
    using m1 "1.prems" by linarith+
  obtain e0 e1 e2 where e: "es ! nat mid = (e0, e1, e2)" by (cases "es ! nat mid") auto
  have g: "Index_getitem index mid = Inr (e0, e1, e2)"
    using Index_getitem_flatten [OF m2(1)] m2(2) e "1.prems"(1) by simp
  have k: "entry_key (es ! nat mid) = (e0, e1)" by (simp add: entry_key_def e)
  have mono: "\<And>i j. i \<le> j \<Longrightarrow> j < length es \<Longrightarrow> entry_key (es ! i) \<le> entry_key (es ! j)"
    using "1.prems"(2) by (simp add: sorted_iff_nth_mono)
  show ?case
  proof (cases "e0 = a \<and> e1 = b")
    case True
    have "bisect index a b low high = Inr (Some e2)"
      using bisect_step [OF lh g [unfolded mid_def], where a=a and b=b] True by simp
    then show ?thesis using m2 k True e by (intro exI [of _ "nat mid"]) simp
  next
    case False
    show ?thesis
    proof (cases "md5LessThan e0 e1 a b")
      case True
      then have lt: "entry_key (es ! nat mid) < entry_key (es ! p)"
        using k "1.prems"(8) by (simp add: md5LessThan_key del: less_prod_simp)
      have "nat mid < p"
      proof (rule ccontr)
        assume "\<not> nat mid < p"
        then have "entry_key (es ! p) \<le> entry_key (es ! nat mid)"
          using mono [of p "nat mid"] m2 by simp
        then show False using lt by simp
      qed
      then have lo': "mid + 1 \<le> int p" using m2 by linarith
      have b: "bisect index a b low high = bisect index a b (mid + 1) high"
        using bisect_step [OF lh g [unfolded mid_def], where a=a and b=b] False True by (simp add: mid_def)
      have "\<exists>q<length es. entry_key (es ! q) = (a, b)
               \<and> bisect index a b (low + (high - low) div 2 + 1) high
                    = Inr (Some (snd (snd (es ! q))))"
      proof (rule "1.IH"(1) [OF lh g [unfolded mid_def] refl refl _ _ "1.prems"(1,2) _ "1.prems"(4,5) _ "1.prems"(7,8)])
        show "\<not> (e0 = a \<and> e1 = b)" by (rule False)
        show "md5LessThan e0 e1 a b" by (rule True)
        show "0 \<le> low + (high - low) div 2 + 1" using m1 "1.prems"(3) by (simp add: mid_def)
        show "low + (high - low) div 2 + 1 \<le> int p" using lo' by (simp add: mid_def)
      qed
      then show ?thesis using b by (simp add: mid_def)
    next
      case nlt: False
      have ne: "entry_key (es ! nat mid) \<noteq> entry_key (es ! p)"
        using k "1.prems"(8) False by auto
      have "\<not> entry_key (es ! nat mid) < entry_key (es ! p)"
        using k "1.prems"(8) nlt by (simp add: md5LessThan_key del: less_prod_simp)
      then have gt: "entry_key (es ! p) < entry_key (es ! nat mid)"
        using ne by (simp add: not_less order_less_le)
      have "p < nat mid"
      proof (rule ccontr)
        assume "\<not> p < nat mid"
        then have "entry_key (es ! nat mid) \<le> entry_key (es ! p)"
          using mono [of "nat mid" p] "1.prems"(5) by simp
        then show False using gt by simp
      qed
      then have hi': "int p \<le> mid - 1" using m2 by linarith
      have b: "bisect index a b low high = bisect index a b low (mid - 1)"
        using bisect_step [OF lh g [unfolded mid_def], where a=a and b=b] False nlt by (simp add: mid_def)
      have "\<exists>q<length es. entry_key (es ! q) = (a, b)
               \<and> bisect index a b low (low + (high - low) div 2 - 1)
                    = Inr (Some (snd (snd (es ! q))))"
      proof (rule "1.IH"(2) [OF lh g [unfolded mid_def] refl refl _ _ "1.prems"(1,2,3) _ "1.prems"(5,6) _ "1.prems"(8)])
        show "\<not> (e0 = a \<and> e1 = b)" by (rule False)
        show "\<not> md5LessThan e0 e1 a b" by (rule nlt)
        show "low + (high - low) div 2 - 1 \<le> int (length es)" using m1 "1.prems"(4) by (simp add: mid_def)
        show "int p \<le> low + (high - low) div 2 - 1" using hi' by (simp add: mid_def)
      qed
      then show ?thesis using b by (simp add: mid_def)
    qed
  qed
qed


lemma gatherIndex_entries:
  "gatherIndex md5 infolist = Inr es \<Longrightarrow> es = map (entry_of md5) (filter indexed infolist)"
  by (induction infolist arbitrary: es)
    (auto simp: indexed_def entry_of_def split: sum.splits prod.splits if_splits)

text \<open>
  C1, as the code has it. For every ZIP directory that \<open>buildIndex\<close> accepts and every
  entry of it that is neither a directory nor the index file, looking the entry's name up
  in the index read back from the blob returns the entry's header offset, provided that
  every other indexed entry with the same MD5 halves (the same name a second time, or a
  colliding name) records the same offset.
\<close>

theorem index_round_trip:
  assumes "buildIndex md5 infolist = Inr blob"
    and "item \<in> set infolist" and "\<not> is_dir item" and "filename item \<noteq> ''@3dtilesIndex1@''"
    and "\<forall>other \<in> set infolist.
           \<not> is_dir other \<and> filename other \<noteq> ''@3dtilesIndex1@''
           \<and> md5 (filename other) = md5 (filename item)
           \<longrightarrow> header_offset other = header_offset item"
  shows "\<exists>index. readIndex blob = Inr index
           \<and> findLocalFileHeaderOffsetInIndex md5 index (filename item)
               = Inr (Some (header_offset item))"
proof -
  from assms(1) obtain es where g: "gatherIndex md5 infolist = Inr es"
    and p: "packIndex (sort_key (\<lambda>item. (fst item, fst (snd item))) es) = Inr blob"
    by (auto simp: buildIndex_def split: sum.splits)
  define ses where "ses = sort_key entry_key es"
  have p': "packIndex ses = Inr blob"
    using p by (simp add: ses_def entry_key_def [abs_def])
  have es: "es = map (entry_of md5) (filter indexed infolist)"
    by (rule gatherIndex_entries [OF g])
  have srt: "sorted (map entry_key ses)" by (simp add: ses_def)
  have st: "set ses = set es" by (simp add: ses_def)
  obtain a b where ab: "md5 (filename item) = (a, b)" by (cases "md5 (filename item)") auto
  have "entry_of md5 item \<in> set ses"
    using assms(2,3,4) by (simp add: st es indexed_def)
  then obtain p where pl: "p < length ses" and pe: "ses ! p = entry_of md5 item"
    by (auto simp: in_set_conv_nth)
  have pk: "entry_key (ses ! p) = (uint a, uint b)"
    by (simp add: pe entry_of_def entry_key_def ab)
  obtain q where ql: "q < length ses" and qk: "entry_key (ses ! q) = (uint a, uint b)"
    and r: "bisect (flatten ses) (uint a) (uint b) 0 (int (length ses))
              = Inr (Some (snd (snd (ses ! q))))"
    using bisect_finds [OF refl srt _ _ pl _ _ pk, of 0 "int (length ses)"] pl by auto
  have "ses ! q \<in> set es" using ql st by (metis nth_mem)
  then obtain other where o: "other \<in> set infolist" "indexed other"
    and oe: "ses ! q = entry_of md5 other"
    by (auto simp: es)
  have "md5 (filename other) = md5 (filename item)"
    using qk oe by (cases "md5 (filename other)") (auto simp: entry_key_def entry_of_def ab dest: word_uint_eqI)
  then have "header_offset other = header_offset item"
    using assms(5) o by (auto simp: indexed_def)
  then have off: "snd (snd (ses ! q)) = header_offset item"
    by (simp add: oe entry_of_def)
  have "readIndex blob = Inr (flatten ses)" by (rule readIndex_packIndex [OF p'])
  moreover have "findLocalFileHeaderOffsetInIndex md5 (flatten ses) (filename item)
                   = Inr (Some (header_offset item))"
    using r off by (simp add: findLocalFileHeaderOffsetInIndex_def ab Index_len_flatten)
  ultimately show ?thesis by blast
qed


lemma buildIndex_zip_two_names:
  "buildIndex md5_sample zip_two_names
     = Inr (le_bytes 8 12157170054180749580 @ le_bytes 8 7000413967451013937 @ le_bytes 8 0
            @ le_bytes 8 17019013823989803922 @ le_bytes 8 10328778650976835386
            @ le_bytes 8 61)"
  by (simp add: buildIndex_def zip_two_names_def checkIfSupportedZipItem_def
      disallowedFlagBits_def is_dir_def md5_sample_def pack_QQQ_def)

lemma readIndex_zip_two_names:
  "readIndex (le_bytes 8 12157170054180749580 @ le_bytes 8 7000413967451013937 @ le_bytes 8 0
              @ le_bytes 8 17019013823989803922 @ le_bytes 8 10328778650976835386
              @ le_bytes 8 61)
     = Inr [12157170054180749580, 7000413967451013937, 0,
            17019013823989803922, 10328778650976835386, 61]"
  by (simp add: readIndex_def le_bytes_numeral)

text \<open>The archive of \<open>a\<close> and \<open>b\<close>: \<open>b\<close> is found at its offset 61.\<close>

theorem index_round_trip_witness:
  "buildIndex md5_sample zip_two_names
     = Inr (le_bytes 8 12157170054180749580 @ le_bytes 8 7000413967451013937 @ le_bytes 8 0
            @ le_bytes 8 17019013823989803922 @ le_bytes 8 10328778650976835386
            @ le_bytes 8 61)
   \<and> findLocalFileHeaderOffsetInIndex md5_sample
        [12157170054180749580, 7000413967451013937, 0,
         17019013823989803922, 10328778650976835386, 61] ''b'' = Inr (Some 61)"
proof -
  let ?b = "\<lparr>filename = ''b'', flag_bits = 0, compress_type = 0, compress_size = 7,
             file_size = 7, header_offset = 61\<rparr>"
  have "?b \<in> set zip_two_names" by (simp add: zip_two_names_def)
  moreover have "\<not> is_dir ?b" by (simp add: is_dir_def)
  moreover have "filename ?b \<noteq> ''@3dtilesIndex1@''" by simp
  moreover have "\<forall>other \<in> set zip_two_names.
           \<not> is_dir other \<and> filename other \<noteq> ''@3dtilesIndex1@''
           \<and> md5_sample (filename other) = md5_sample (filename ?b)
           \<longrightarrow> header_offset other = header_offset ?b"
    by (simp add: zip_two_names_def md5_sample_def)
  ultimately have "\<exists>index.
      readIndex (le_bytes 8 12157170054180749580 @ le_bytes 8 7000413967451013937
                 @ le_bytes 8 0 @ le_bytes 8 17019013823989803922
                 @ le_bytes 8 10328778650976835386 @ le_bytes 8 61) = Inr index
      \<and> findLocalFileHeaderOffsetInIndex md5_sample index (filename ?b)
            = Inr (Some (header_offset ?b))"
    by (rule index_round_trip [OF buildIndex_zip_two_names])
  then show ?thesis
    using buildIndex_zip_two_names by (simp add: readIndex_zip_two_names)
qed

text \<open>
  C1, as it is stated, fails where a name occurs twice. The directory lists \<open>a\<close> at offset
  0 and \<open>a\<close> again at offset 100; both entries get the same key, the stable sort keeps
  their order, and the search probes \<open>mid = 1\<close> first: the lookup of \<open>a\<close> returns 100,
  which is not the offset 0 that the directory records for the first entry.
\<close>

theorem index_round_trip_duplicate_name:
  "buildIndex md5_sample zip_duplicate_name
     = Inr (le_bytes 8 12157170054180749580 @ le_bytes 8 7000413967451013937 @ le_bytes 8 0
            @ le_bytes 8 12157170054180749580 @ le_bytes 8 7000413967451013937
            @ le_bytes 8 100)
   \<and> readIndex (le_bytes 8 12157170054180749580 @ le_bytes 8 7000413967451013937
                 @ le_bytes 8 0 @ le_bytes 8 12157170054180749580
                 @ le_bytes 8 7000413967451013937 @ le_bytes 8 100)
     = Inr [12157170054180749580, 7000413967451013937, 0,
            12157170054180749580, 7000413967451013937, 100]
   \<and> filename (zip_duplicate_name ! 0) = ''a''
   \<and> \<not> is_dir (zip_duplicate_name ! 0)
   \<and> header_offset (zip_duplicate_name ! 0) = 0
   \<and> findLocalFileHeaderOffsetInIndex md5_sample
        [12157170054180749580, 7000413967451013937, 0,
         12157170054180749580, 7000413967451013937, 100] ''a'' = Inr (Some 100)"
proof (intro conjI)
  show "buildIndex md5_sample zip_duplicate_name
     = Inr (le_bytes 8 12157170054180749580 @ le_bytes 8 7000413967451013937 @ le_bytes 8 0
            @ le_bytes 8 12157170054180749580 @ le_bytes 8 7000413967451013937
            @ le_bytes 8 100)"
    by (simp add: buildIndex_def zip_duplicate_name_def checkIfSupportedZipItem_def
        disallowedFlagBits_def is_dir_def md5_sample_def pack_QQQ_def)
  show "readIndex (le_bytes 8 12157170054180749580 @ le_bytes 8 7000413967451013937
                 @ le_bytes 8 0 @ le_bytes 8 12157170054180749580
                 @ le_bytes 8 7000413967451013937 @ le_bytes 8 100)
     = Inr [12157170054180749580, 7000413967451013937, 0,
            12157170054180749580, 7000413967451013937, 100]"
    by (simp add: readIndex_def le_bytes_numeral)
  show "findLocalFileHeaderOffsetInIndex md5_sample
        [12157170054180749580, 7000413967451013937, 0,
         12157170054180749580, 7000413967451013937, 100] ''a'' = Inr (Some 100)"
    by (simp add: findLocalFileHeaderOffsetInIndex_def md5_sample_def Index_len_def
        Index_getitem_def py_index_def md5LessThan_def bisect.simps)
qed (simp_all add: zip_duplicate_name_def is_dir_def)

subsection \<open>A lookup that runs past the last entry\<close>

text \<open>
  C3. The search starts with \<open>high = len(index)\<close>, one past the last entry, and reads
  \<open>index[mid]\<close> before any test of \<open>mid\<close>. On the index of the archive that holds the one
  file \<open>a\<close>, looking up \<open>b\<close>, whose MD5 halves are the larger, goes \<open>low = 0, high = 1\<close>,
  \<open>mid = 0\<close>, entry smaller, \<open>low = 1\<close>, \<open>mid = 1\<close>, and \<open>index[1]\<close> raises \<open>IndexError\<close>:
  the lookup does not return \<open>None\<close>.
\<close>

theorem lookup_single_entry_index_raises:
  "buildIndex md5_sample
     [\<lparr>filename = ''a'', flag_bits = 0, compress_type = 8, compress_size = 10,
       file_size = 20, header_offset = 0\<rparr>]
     = Inr (le_bytes 8 12157170054180749580 @ le_bytes 8 7000413967451013937 @ le_bytes 8 0)
   \<and> readIndex (le_bytes 8 12157170054180749580 @ le_bytes 8 7000413967451013937
                 @ le_bytes 8 0)
     = Inr [12157170054180749580, 7000413967451013937, 0]
   \<and> findLocalFileHeaderOffsetInIndex md5_sample
       [12157170054180749580, 7000413967451013937, 0] ''b'' = Inl IndexError"
proof (intro conjI)
  show "buildIndex md5_sample
     [\<lparr>filename = ''a'', flag_bits = 0, compress_type = 8, compress_size = 10,
       file_size = 20, header_offset = 0\<rparr>]
     = Inr (le_bytes 8 12157170054180749580 @ le_bytes 8 7000413967451013937 @ le_bytes 8 0)"
    by (simp add: buildIndex_def checkIfSupportedZipItem_def disallowedFlagBits_def
        is_dir_def md5_sample_def pack_QQQ_def)
  show "readIndex (le_bytes 8 12157170054180749580 @ le_bytes 8 7000413967451013937
                 @ le_bytes 8 0)
     = Inr [12157170054180749580, 7000413967451013937, 0]"
    by (simp add: readIndex_def le_bytes_numeral)
  show "findLocalFileHeaderOffsetInIndex md5_sample
       [12157170054180749580, 7000413967451013937, 0] ''b'' = Inl IndexError"
    by (simp add: findLocalFileHeaderOffsetInIndex_def md5_sample_def Index_len_def
        Index_getitem_def py_index_def md5LessThan_def bisect.simps)
qed

section \<open>Properties of the ZIP parser and the codec\<close>

subsection \<open>The length of decompressed data\<close>

lemma store_is_no_other_method:
  "ZIP_COMPRESSION_METHOD_STORE \<noteq> ZIP_COMPRESSION_METHOD_DEFLATE"
  "ZIP_COMPRESSION_METHOD_STORE \<noteq> ZIP_COMPRESSION_METHOD_ZSTD"
  "ZIP_COMPRESSION_METHOD_STORE \<noteq> ZIP_COMPRESSION_METHOD_ZSTD_OLD"
  by (simp_all add: ZIP_COMPRESSION_METHOD_STORE_def ZIP_COMPRESSION_METHOD_DEFLATE_def
      ZIP_COMPRESSION_METHOD_ZSTD_def ZIP_COMPRESSION_METHOD_ZSTD_OLD_def le_bytes_numeral)

text \<open>
  C4, as the code has it. Whenever \<open>decompressFileContents\<close> succeeds, the result has
  the expected length for Deflate and for both Zstd methods, and is the input itself,
  whatever its length, for Store.
\<close>

theorem decompress_length_law:
  assumes "decompressFileContents inflate zstd compMethod n bytes = Inr out"
  shows "if compMethod = ZIP_COMPRESSION_METHOD_STORE then out = bytes
         else int (length out) = n"
  using assms store_is_no_other_method
  by (auto simp: decompressFileContents_def split: if_splits sum.splits option.splits)

theorem decompress_length_law_witness:
  "decompressFileContents inflate_sample None ZIP_COMPRESSION_METHOD_DEFLATE 1 [0x4b, 0x04, 0x00]
     = Inr [0x61]
   \<and> int (length [0x61 :: byte]) = 1"
  using decompress_length_law [of inflate_sample None ZIP_COMPRESSION_METHOD_DEFLATE 1
      "[0x4b, 0x04, 0x00]" "[0x61]"] store_is_no_other_method
  by (simp add: decompressFileContents_def inflate_sample_def)

text \<open>
  C4, as it is stated, fails for Store: three stored bytes with an expected size of 5
  come back as they are, and the call succeeds.
\<close>

theorem store_keeps_input_length:
  "decompressFileContents inflate_sample None ZIP_COMPRESSION_METHOD_STORE 5 [1, 2, 3]
     = Inr [1, 2, 3]
   \<and> int (length [1, 2, 3 :: byte]) \<noteq> 5"
  using store_is_no_other_method by (simp add: decompressFileContents_def)

subsection \<open>A ZIP64 offset without its record\<close>

lemma py_slice_middle:
  "py_slice (pre @ xs @ post) (int (length pre)) (int (length pre) + int (length xs)) = xs"
  by (simp add: py_slice_def clip_def nat_add_distrib min_def)

lemma walk_no_zip64:
  assumes "list_all other_tuple ts"
    and "cde_extraField cde = pre @ extra_tuples ts"
    and "cde_extraFieldLength cde = int (length (cde_extraField cde))"
  shows "walkExtraField utf8 file cde (int (length pre)) = Inr None"
  using assms
proof (induction ts arbitrary: pre)
  case Nil
  then show ?case by (subst walkExtraField.simps) simp
next
  case (Cons t ts)
  obtain tag payload where t: "t = (tag, payload)" by (cases t) auto
  let ?hdr = "le_bytes 2 tag @ le_bytes 2 (int (length payload))"
  have ot: "0 \<le> tag" "tag < 2 ^ 16" "length payload < 2 ^ 16"
    "\<not> (tag = 0x0001 \<and> length payload = 8)"
    using Cons.prems(1) by (auto simp: t other_tuple_def)
  have ef: "cde_extraField cde = pre @ ?hdr @ (payload @ extra_tuples ts)"
    using Cons.prems(2) by (simp add: t)
  have len: "int (length pre) < cde_extraFieldLength cde"
    by (simp add: Cons.prems(3) ef length_le_bytes)
  have "py_slice (cde_extraField cde) (int (length pre)) (int (length pre) + 4) = ?hdr"
    using py_slice_middle [of pre ?hdr "payload @ extra_tuples ts"]
    by (simp add: ef length_le_bytes)
  moreover have "unpack_HH ?hdr = Inr (tag, int (length payload))"
    using ot by (simp add: unpack_HH_def length_le_bytes from_le_le_bytes)
  ultimately have step:
    "walkExtraField utf8 file cde (int (length pre))
      = walkExtraField utf8 file cde (int (length pre) + 4 + int (length payload))"
    using len ot(4)
    by (subst walkExtraField.simps)
       (auto simp: ZIP64_EXTENDED_INFORMATION_EXTRA_SIGNATURE_def)
  have "walkExtraField utf8 file cde (int (length (pre @ ?hdr @ payload))) = Inr None"
    using Cons.prems by (intro Cons.IH) (simp_all add: t)
  then show ?case using step by (simp add: length_le_bytes algebra_simps)
qed

text \<open>
  C5, as the code has it. For a central directory entry whose offset field is
  \<open>0xFFFFFFFF\<close> and whose extra field is a sequence of complete tuples, none of them
  with tag \<open>0x0001\<close> and size 8, resolving the local file header returns \<open>None\<close>: the
  absent result, and no error.
\<close>

theorem no_zip64_tuple_returns_None:
  assumes "cde_relativeOffsetOfLocalHeader cde = 0xFFFFFFFF"
    and "cde_extraField cde = extra_tuples ts"
    and "cde_extraFieldLength cde = int (length (cde_extraField cde))"
    and "list_all other_tuple ts"
  shows "getLocalFileHeaderFromCentralDirectoryEntry utf8 file cde = Inr None"
  using walk_no_zip64 [of ts cde "[]" utf8 "file"] assms
  by (simp add: getLocalFileHeaderFromCentralDirectoryEntry_def)

theorem no_zip64_tuple_returns_None_witness:
  "cde_relativeOffsetOfLocalHeader cde_zip64_without_record = 0xFFFFFFFF
   \<and> cde_extraField cde_zip64_without_record = extra_tuples [(0x5455, [1, 0, 0, 0, 0])]
   \<and> list_all other_tuple [(0x5455, [1, 0, 0, 0, 0])]
   \<and> getLocalFileHeaderFromCentralDirectoryEntry ascii_sample zip_one_file
        cde_zip64_without_record = Inr None"
  using no_zip64_tuple_returns_None
    [of cde_zip64_without_record "[(0x5455, [1, 0, 0, 0, 0])]" ascii_sample zip_one_file]
  by (simp add: cde_zip64_without_record_def other_tuple_def le_bytes_numeral)

text \<open>
  C5, as it is stated, fails: on the entry above the walk reads the one tuple, steps
  over it, leaves the loop and returns \<open>None\<close>. The result is \<open>Inr\<close>, not an error.
\<close>

theorem zip64_without_record_is_no_error:
  "cde_relativeOffsetOfLocalHeader cde_zip64_without_record = 0xFFFFFFFF
   \<and> getLocalFileHeaderFromCentralDirectoryEntry ascii_sample []
        cde_zip64_without_record = Inr None"
  by (simp add: getLocalFileHeaderFromCentralDirectoryEntry_def cde_zip64_without_record_def
      walkExtraField.simps unpack_HH_def py_slice_def clip_def
      ZIP64_EXTENDED_INFORMATION_EXTRA_SIGNATURE_def)

subsection \<open>The last entry of an archive shorter than 320 bytes\<close>

lemma short_file_seek_raises:
  "length file < 320 \<Longrightarrow> getLastEntryInCentralDirectory utf8 file = Inl OSError"
  by (simp add: getLastEntryInCentralDirectory_def seek_def)

text \<open>
  C9. On the complete archive of 101 bytes, \<open>file.seek(filesize - 320)\<close> is
  \<open>file.seek(-219)\<close>, which raises \<open>OSError\<close>; the function does not start at the
  beginning of the file and returns no entry.
\<close>

theorem last_entry_of_small_archive_raises:
  "length zip_one_file = 101
   \<and> getLastEntryInCentralDirectory ascii_sample zip_one_file = Inl OSError"
  by (simp add: getLastEntryInCentralDirectory_def seek_def zip_one_file_def)

section \<open>Properties of the GLB framing\<close>

lemma header_json_length:
  "unpack_iiiii (take 20 buffer) = Inr header \<Longrightarrow>
   header ! 3 = from_le_signed (take 4 (drop 12 buffer))"
  by (auto simp: unpack_iiiii_def take_drop min_def split: if_splits)

lemma unpack_ii_long:
  "8 < length data \<Longrightarrow>
   unpack_ii (take 8 data)
     = Inr (from_le_signed (take 4 data), from_le_signed (take 4 (drop 4 data)))"
  by (simp add: unpack_ii_def min_def drop_take)

text \<open>
  C8, as the code has it. When more than 8 bytes follow the JSON chunk and the chunk
  type they carry is not BIN, \<open>getChunksFromBuffer\<close> raises. It returns a BIN part only
  when more than 8 bytes follow and their chunk type is BIN, and it returns the JSON
  alone only when at most 8 bytes follow.
\<close>

theorem second_chunk_not_bin:
  "(8 < length (bytesAfterJson buffer) \<and> secondChunkType buffer \<noteq> 0x004E4942
      \<longrightarrow> (\<exists>e. getChunksFromBuffer utf8 buffer = Inl e))
   \<and> (getChunksFromBuffer utf8 buffer = Inr (jsondata, Some bindata)
      \<longrightarrow> 8 < length (bytesAfterJson buffer) \<and> secondChunkType buffer = 0x004E4942)
   \<and> (getChunksFromBuffer utf8 buffer = Inr (jsondata, None)
      \<longrightarrow> length (bytesAfterJson buffer) \<le> 8)"
proof (cases "unpack_iiiii (take 20 buffer)")
  case (Inl e)
  then show ?thesis by (simp add: getChunksFromBuffer_def)
next
  case (Inr header)
  have h3: "header ! 3 = from_le_signed (take 4 (drop 12 buffer))"
    by (rule header_json_length [OF Inr])
  show ?thesis
  proof (cases "8 < length (bytesAfterJson buffer)")
    case True
    then show ?thesis
      using Inr unpack_ii_long [OF True]
      by (auto simp: getChunksFromBuffer_def h3 bytesAfterJson_def [symmetric]
          secondChunkType_def Let_def split: sum.splits if_splits)
  next
    case False
    then show ?thesis
      using Inr
      by (auto simp: getChunksFromBuffer_def h3 bytesAfterJson_def [symmetric]
          Let_def split: sum.splits if_splits)
  qed
qed

lemma bytesAfterJson_glb_with_other_chunk:
  "bytesAfterJson glb_with_other_chunk = le_bytes 4 4 @ le_bytes 4 0x12345678 @ [1, 2, 3, 4]"
  by (simp add: bytesAfterJson_def glb_with_other_chunk_def le_bytes_numeral
      from_le_signed_def clip_def)

lemma getChunks_glb_with_bin_chunk:
  "getChunksFromBuffer ascii_sample glb_with_bin_chunk = Inr (''{}  '', Some [1, 2, 3, 4])"
  by (simp add: getChunksFromBuffer_def glb_with_bin_chunk_def le_bytes_numeral
      unpack_iiiii_def from_le_signed_def decode_def ascii_sample_def py_slice_def clip_def
      unpack_ii_def char_of_def bit_Suc_0_iff)

theorem second_chunk_not_bin_witness:
  "8 < length (bytesAfterJson glb_with_other_chunk)
   \<and> secondChunkType glb_with_other_chunk \<noteq> 0x004E4942
   \<and> (\<exists>e. getChunksFromBuffer ascii_sample glb_with_other_chunk = Inl e)
   \<and> getChunksFromBuffer ascii_sample glb_with_bin_chunk = Inr (''{}  '', Some [1, 2, 3, 4])
   \<and> secondChunkType glb_with_bin_chunk = 0x004E4942"
proof -
  have a: "8 < length (bytesAfterJson glb_with_other_chunk)"
    by (simp add: bytesAfterJson_glb_with_other_chunk length_le_bytes)
  have b: "secondChunkType glb_with_other_chunk \<noteq> 0x004E4942"
    by (simp add: secondChunkType_def bytesAfterJson_glb_with_other_chunk le_bytes_numeral
        from_le_signed_def)
  have c: "\<exists>e. getChunksFromBuffer ascii_sample glb_with_other_chunk = Inl e"
    using second_chunk_not_bin [of glb_with_other_chunk ascii_sample] a b by blast
  have d: "secondChunkType glb_with_bin_chunk = 0x004E4942"
    using second_chunk_not_bin [of glb_with_bin_chunk ascii_sample "''{}  ''" "[1, 2, 3, 4]"]
      getChunks_glb_with_bin_chunk by blast
  show ?thesis using a b c d getChunks_glb_with_bin_chunk by blast
qed

text \<open>
  C8, as it is stated, fails: a second chunk of type \<open>0x12345678\<close> makes the function
  raise (\<open>Glb binary chunk header error\<close>); it does not return the JSON with no BIN part.
\<close>

theorem other_second_chunk_raises:
  "getChunksFromBuffer ascii_sample glb_with_other_chunk = Inl Exception"
  by (simp add: getChunksFromBuffer_def glb_with_other_chunk_def le_bytes_numeral
      unpack_iiiii_def from_le_signed_def decode_def ascii_sample_def py_slice_def clip_def
      unpack_ii_def)

end
